theory Spec2Isabelle
  imports Main "HOL-Library.Sublist" "HOL-Library.Monad_Syntax"
begin

section \<open>JavaScript values used by the Common client\<close>

text \<open>
  The client is TypeScript running on Node. Strings are \<^typ>\<open>string\<close>; the numeric ids
  of Common (users, threads, comments) are modelled as \<^typ>\<open>int\<close>, that is, the
  integer-valued numbers below \<open>2^53\<close> that JSON carries exactly and that
  \<open>Number.prototype.toString\<close> prints in plain decimal. A rejected promise or a thrown
  exception is a value of \<open>js_error\<close>.
\<close>

datatype js_error = TypeError | RangeError | Rejected string

datatype 'a nullish = Undefined | Null | Value 'a

text \<open>\<open>n.toString()\<close> for an integer-valued number.\<close>

fun nat_toString :: "nat \<Rightarrow> string" where
  "nat_toString n =
     (if n < 10 then [''0123456789'' ! n]
      else nat_toString (n div 10) @ [''0123456789'' ! (n mod 10)])"

declare nat_toString.simps [simp del]

definition number_toString :: "int \<Rightarrow> string" where
  "number_toString i =
     (if i < 0 then CHR ''-'' # nat_toString (nat (- i)) else nat_toString (nat i))"

text \<open>\<open>haystack.includes(needle)\<close>: the needle occurs at some position of the haystack.\<close>

fun js_includes :: "string \<Rightarrow> string \<Rightarrow> bool" where
  "js_includes [] needle = (needle = [])"
| "js_includes (c # cs) needle = (prefix needle (c # cs) \<or> js_includes cs needle)"

text \<open>\<open>s.split(",")\<close> on a separator of one character: always at least one piece.\<close>

fun js_split :: "char \<Rightarrow> string \<Rightarrow> string list" where
  "js_split sep [] = [[]]"
| "js_split sep (c # cs) =
     (if c = sep then [] # js_split sep cs
      else (case js_split sep cs of
              [] \<Rightarrow> [[c]]
            | p # ps \<Rightarrow> (c # p) # ps))"

text \<open>Truthiness of an optional string, as tested by \<open>if (x)\<close>.\<close>

fun truthy_string :: "string nullish \<Rightarrow> bool" where
  "truthy_string (Value s) = (s \<noteq> [])"
| "truthy_string _ = False"

section \<open>schemas.ts\<close>

datatype content_type = Thread | Comment

fun content_type_string :: "content_type \<Rightarrow> string" where
  "content_type_string Thread = ''thread''"
| "content_type_string Comment = ''comment''"

record agent_mentioned =
  community_id :: string
  profile_name :: string
  profile_url :: string
  thread_title :: string
  object_url :: string
  object_summary :: string
  content_url :: "string nullish"
  content_type :: content_type
  thread_id :: int
  comment_id :: "int option"
  author_user_id :: int

record augmented_agent_mentioned = agent_mentioned +
  full_object_text :: string

section \<open>Effects of the client\<close>

text \<open>
  Every collaborator the client awaits (the agent runtime, the functions imported from
  the agent core, the Common API client, \<open>fetch\<close>) is a parameter of the model: a
  function from the call's arguments to the value the promise resolves to (\<open>Inr\<close>) or
  the error it rejects with (\<open>Inl\<close>). A run of an async function is the list of calls
  it made, in order, together with its result. \<open>'st\<close> is the runtime's opaque
  \<open>State\<close>.
\<close>

type_synonym uuid = string

record memory_content =
  content_text :: string
  content_source :: string
  content_object_url :: "string option"
  content_reply_url :: "string nullish option"

record memory =
  memory_id :: uuid
  memory_userId :: uuid
  memory_roomId :: uuid
  memory_agentId :: uuid
  memory_content :: memory_content
  createdAt :: "int option"
  unique :: bool
  embedding :: "int list"

record generated_content =
  response_text :: string
  response_action :: "string nullish"

record create_comment_response =
  res_id :: int
  res_community_id :: string
  res_thread_id :: int
  res_body :: string
  res_created_at :: "int option"
  res_content_url :: "string nullish"

datatype should_respond_verdict = RESPOND | IGNORE | STOP

datatype log_level = Debug | Warn | Error

datatype 'st effect =
    Log log_level string
  | Fetch string
  | EnsureConnection uuid uuid string
  | CreateMemory memory
  | ComposeState memory augmented_agent_mentioned string
  | GenerateShouldRespond string
  | GenerateMessageResponse string
  | DatabaseLog memory string generated_content
  | CreateComment int string "int option"
  | ProcessActions memory "memory list" 'st
  | Evaluate memory 'st bool

type_synonym ('st, 'a) io = "'st effect list \<times> (js_error + 'a)"

definition io_return :: "'a \<Rightarrow> ('st, 'a) io" where
  "io_return x = ([], Inr x)"

definition io_throw :: "js_error \<Rightarrow> ('st, 'a) io" where
  "io_throw e = ([], Inl e)"

definition io_await :: "'st effect \<Rightarrow> js_error + 'a \<Rightarrow> ('st, 'a) io" where
  "io_await call result = ([call], result)"

text \<open>Awaiting a promise that is already at hand: no call is recorded.\<close>

definition io_settle :: "js_error + 'a \<Rightarrow> ('st, 'a) io" where
  "io_settle result = ([], result)"

definition io_log :: "log_level \<Rightarrow> string \<Rightarrow> ('st, unit) io" where
  "io_log lvl msg = ([Log lvl msg], Inr ())"

definition io_bind :: "('st, 'a) io \<Rightarrow> ('a \<Rightarrow> ('st, 'b) io) \<Rightarrow> ('st, 'b) io" where
  "io_bind m f =
     (case m of
        (t, Inl e) \<Rightarrow> (t, Inl e)
      | (t, Inr x) \<Rightarrow> (case f x of (t', r) \<Rightarrow> (t @ t', r)))"

definition calls :: "('st, 'a) io \<Rightarrow> 'st effect list" where
  "calls m = fst m"

definition outcome :: "('st, 'a) io \<Rightarrow> js_error + 'a" where
  "outcome m = snd m"

section \<open>The message manager\<close>

text \<open>
  The functions of the agent core and the templates of \<open>templates.ts\<close> that the message
  manager imports (neither is part of the sources at hand) are the fields of
  \<open>eliza_core\<close>. In the response of the Common API, \<open>res_created_at\<close> is the time
  value of \<open>new Date(res.created_at)\<close>, \<open>None\<close> for an invalid date.
\<close>

record character_templates =
  character_commonShouldRespondTemplate :: "string nullish"
  character_shouldRespondTemplate :: "string nullish"
  character_commonMessageHandlerTemplate :: "string nullish"
  character_messageHandlerTemplate :: "string nullish"

record 'st eliza_core =
  stringToUuid :: "string \<Rightarrow> uuid"
  getEmbeddingZeroVector :: "int list"
  composeContext :: "'st \<Rightarrow> string \<Rightarrow> string"
  generateShouldRespond :: "string \<Rightarrow> js_error + should_respond_verdict option"
  generateMessageResponse :: "string \<Rightarrow> js_error + generated_content option"
  commonShouldRespondTemplate :: string
  commonMessageHandlerTemplate :: string
  Clients_COMMON :: string

record 'st runtime =
  agentId :: uuid
  templates :: "character_templates option"
  ensureConnection :: "uuid \<Rightarrow> uuid \<Rightarrow> string \<Rightarrow> js_error + unit"
  createMemory :: "memory \<Rightarrow> js_error + unit"
  composeState :: "memory \<Rightarrow> augmented_agent_mentioned \<Rightarrow> string \<Rightarrow> js_error + 'st"
  evaluate :: "memory \<Rightarrow> 'st \<Rightarrow> bool \<Rightarrow> js_error + unit"
  processActions :: "memory \<Rightarrow> memory list \<Rightarrow> 'st \<Rightarrow> js_error + unit"
  databaseLog :: "memory \<Rightarrow> string \<Rightarrow> generated_content \<Rightarrow> js_error + unit"

record 'st message_manager =
  runtime :: "'st runtime"
  createComment :: "int \<Rightarrow> string \<Rightarrow> int option \<Rightarrow> js_error + create_comment_response"
  commonUserId :: int
  commonProfileName :: string

text \<open>\<open>templates?.a || templates?.b || fallback\<close>\<close>

definition pick_template ::
  "character_templates option \<Rightarrow> (character_templates \<Rightarrow> string nullish) \<Rightarrow>
   (character_templates \<Rightarrow> string nullish) \<Rightarrow> string \<Rightarrow> string" where
  "pick_template ts first second fallback =
     (case ts of
        None \<Rightarrow> fallback
      | Some t \<Rightarrow>
          (case first t of
             Value a \<Rightarrow> if a \<noteq> [] then a else
               (case second t of Value b \<Rightarrow> if b \<noteq> [] then b else fallback | _ \<Rightarrow> fallback)
           | _ \<Rightarrow>
               (case second t of Value b \<Rightarrow> if b \<noteq> [] then b else fallback | _ \<Rightarrow> fallback)))"

definition shouldRespond ::
  "'st message_manager \<Rightarrow> 'st eliza_core \<Rightarrow> augmented_agent_mentioned \<Rightarrow> 'st \<Rightarrow> ('st, bool) io" where
  "shouldRespond mm core message state =
     (if author_user_id message = commonUserId mm then
        io_bind (io_log Debug ''Skipping message from self'') (\<lambda>_. io_return False)
      else if \<not> js_includes (full_object_text message) (number_toString (commonUserId mm)) then
        io_return False
      else
        let context = composeContext core state
              (pick_template (templates (runtime mm)) character_commonShouldRespondTemplate
                 character_shouldRespondTemplate (commonShouldRespondTemplate core))
        in io_bind (io_await (GenerateShouldRespond context) (generateShouldRespond core context))
             (\<lambda>verdict. io_return (verdict = Some RESPOND)))"

definition generateResponse ::
  "'st message_manager \<Rightarrow> 'st eliza_core \<Rightarrow> memory \<Rightarrow> string \<Rightarrow> ('st, generated_content option) io" where
  "generateResponse mm core mem context =
     io_bind (io_log Debug ''[Common Client] Generating response'') (\<lambda>_.
     io_bind (io_await (GenerateMessageResponse context) (generateMessageResponse core context))
       (\<lambda>response.
          case response of
            None \<Rightarrow>
              io_bind (io_log Error ''No response from generateMessageResponse'')
                (\<lambda>_. io_return None)
          | Some r \<Rightarrow>
              io_bind (io_await (DatabaseLog mem context r) (databaseLog (runtime mm) mem context r))
                (\<lambda>_. io_return (Some r))))"

text \<open>\<open>message.comment_id || message.thread_id\<close>\<close>

fun js_or_number :: "int option \<Rightarrow> int \<Rightarrow> int" where
  "js_or_number (Some n) d = (if n \<noteq> 0 then n else d)"
| "js_or_number None d = d"

record memory_ids =
  roomId :: uuid
  userId :: uuid
  messageId :: uuid

definition generateMemoryIds ::
  "'st message_manager \<Rightarrow> 'st eliza_core \<Rightarrow> augmented_agent_mentioned option \<Rightarrow>
   create_comment_response option \<Rightarrow> memory_ids option" where
  "generateMemoryIds mm core message commentResponse =
     (case message of
        Some m \<Rightarrow>
          Some \<lparr> roomId = stringToUuid core
                   (community_id m @ ''-'' @ number_toString (thread_id m) @ ''-'' @
                    agentId (runtime mm)),
                 userId =
                   (if author_user_id m = commonUserId mm then agentId (runtime mm)
                    else stringToUuid core
                           (number_toString (author_user_id m) @ ''-'' @ agentId (runtime mm))),
                 messageId = stringToUuid core
                   (content_type_string (content_type m) @ ''-'' @
                    number_toString (js_or_number (comment_id m) (thread_id m)) @ ''-'' @
                    agentId (runtime mm)) \<rparr>
      | None \<Rightarrow>
          (case commentResponse of
             Some r \<Rightarrow>
               Some \<lparr> roomId = stringToUuid core
                        (res_community_id r @ ''-'' @ number_toString (res_thread_id r) @ ''-'' @
                         agentId (runtime mm)),
                      userId = agentId (runtime mm),
                      messageId = stringToUuid core
                        (''comment-'' @ number_toString (res_id r) @ ''-'' @
                         agentId (runtime mm)) \<rparr>
           | None \<Rightarrow> None))"

definition inbound_memory ::
  "'st message_manager \<Rightarrow> 'st eliza_core \<Rightarrow> int \<Rightarrow> memory_ids \<Rightarrow>
   augmented_agent_mentioned \<Rightarrow> memory" where
  "inbound_memory mm core now ids message =
     \<lparr> memory_id = messageId ids, memory_userId = userId ids, memory_roomId = roomId ids,
       memory_agentId = agentId (runtime mm),
       memory_content =
         \<lparr> content_text = full_object_text message, content_source = Clients_COMMON core,
           content_object_url = Some (object_url message), content_reply_url = None \<rparr>,
       createdAt = Some now, unique = True, embedding = getEmbeddingZeroVector core \<rparr>"

definition reply_memory ::
  "'st message_manager \<Rightarrow> 'st eliza_core \<Rightarrow> memory_ids \<Rightarrow> create_comment_response \<Rightarrow> memory" where
  "reply_memory mm core ids res =
     \<lparr> memory_id = messageId ids, memory_userId = userId ids, memory_roomId = roomId ids,
       memory_agentId = agentId (runtime mm),
       memory_content =
         \<lparr> content_text = res_body res, content_source = Clients_COMMON core,
           content_object_url = None, content_reply_url = Some (res_content_url res) \<rparr>,
       createdAt = res_created_at res, unique = True,
       embedding = getEmbeddingZeroVector core \<rparr>"

text \<open>
  \<open>handleMessage\<close>. Destructuring the result of \<open>_generateMemoryIds\<close> and reading
  \<open>response.text\<close> throw a \<open>TypeError\<close> when the value is \<open>undefined\<close>; the arguments
  of \<open>createComment\<close> are evaluated before the call is made.
\<close>

definition handleMessage ::
  "'st message_manager \<Rightarrow> 'st eliza_core \<Rightarrow> int \<Rightarrow> augmented_agent_mentioned \<Rightarrow> ('st, unit) io" where
  "handleMessage mm core now message =
     (case generateMemoryIds mm core (Some message) None of
        None \<Rightarrow> io_throw TypeError
      | Some ids \<Rightarrow>
     io_bind (io_await (EnsureConnection (userId ids) (roomId ids) (profile_name message))
                (ensureConnection (runtime mm) (userId ids) (roomId ids) (profile_name message)))
       (\<lambda>_.
     let mem = inbound_memory mm core now ids message in
     io_bind (io_await (CreateMemory mem) (createMemory (runtime mm) mem)) (\<lambda>_.
     io_bind (io_await (ComposeState mem message (commonProfileName mm))
                (composeState (runtime mm) mem message (commonProfileName mm)))
       (\<lambda>state.
     io_bind (shouldRespond mm core message state) (\<lambda>respond.
     if \<not> respond then
       io_bind (io_log Debug ''Not responding to message'') (\<lambda>_.
       io_await (Evaluate mem state False) (evaluate (runtime mm) mem state False))
     else
       let context = composeContext core state
             (pick_template (templates (runtime mm)) character_commonMessageHandlerTemplate
                character_messageHandlerTemplate (commonMessageHandlerTemplate core))
       in
       io_bind (generateResponse mm core mem context) (\<lambda>response.
       case response of
         None \<Rightarrow> io_throw TypeError
       | Some r \<Rightarrow>
       io_bind (io_await (CreateComment (thread_id message) (response_text r) (comment_id message))
                  (createComment mm (thread_id message) (response_text r) (comment_id message)))
         (\<lambda>res.
       case generateMemoryIds mm core None (Some res) of
         None \<Rightarrow> io_throw TypeError
       | Some resIds \<Rightarrow>
       let resMemory = reply_memory mm core resIds res in
       io_bind (io_await (CreateMemory resMemory) (createMemory (runtime mm) resMemory)) (\<lambda>_.
       io_bind (if truthy_string (response_action r)
                then io_await (ProcessActions mem [resMemory] state)
                       (processActions (runtime mm) mem [resMemory] state)
                else io_return ()) (\<lambda>_.
       io_await (Evaluate mem state True) (evaluate (runtime mm) mem state True))))))))))"

section \<open>The webhook server\<close>

subsection \<open>Request bodies and the schema\<close>

text \<open>
  \<open>req.body\<close> is whatever the body parsers of the server left there: a parsed JSON
  value, or a \<open>Buffer\<close> of the bytes as transmitted. A parsed object is the list of its
  own properties.
\<close>

datatype json =
    JNull | JBool bool | JNum int | JStr string | JArr "json list"
  | JObj "(string \<times> json) list"

datatype req_body = JsonBody json | BufferBody string

text \<open>
  What a template literal \<open>`${v}`\<close> yields. A plain object prints as
  \<open>[object Object]\<close>; when it has an own property \<open>toString\<close> (never callable in
  parsed JSON) the conversion throws. A \<open>Buffer\<close> prints its bytes.
\<close>

fun js_toString :: "json \<Rightarrow> js_error + string"
  and js_join :: "json list \<Rightarrow> js_error + string" where
  "js_toString JNull = Inr ''null''"
| "js_toString (JBool b) = Inr (if b then ''true'' else ''false'')"
| "js_toString (JNum n) = Inr (number_toString n)"
| "js_toString (JStr s) = Inr s"
| "js_toString (JArr xs) = js_join xs"
| "js_toString (JObj kvs) =
     (if ''toString'' \<in> set (map fst kvs) then Inl TypeError else Inr ''[object Object]'')"
| "js_join [] = Inr []"
| "js_join (x # xs) =
     (case (if x = JNull then Inr [] else js_toString x) of
        Inl e \<Rightarrow> Inl e
      | Inr s \<Rightarrow>
          if xs = [] then Inr s
          else (case js_join xs of Inl e \<Rightarrow> Inl e | Inr r \<Rightarrow> Inr (s @ '','' @ r)))"

fun template_string :: "req_body \<Rightarrow> js_error + string" where
  "template_string (JsonBody v) = js_toString v"
| "template_string (BufferBody bytes) = Inr bytes"

fun z_string :: "json option \<Rightarrow> string option" where
  "z_string (Some (JStr s)) = Some s"
| "z_string _ = None"

definition z_string_max :: "nat \<Rightarrow> json option \<Rightarrow> string option" where
  "z_string_max n v =
     (case z_string v of Some s \<Rightarrow> if length s \<le> n then Some s else None | None \<Rightarrow> None)"

fun z_string_nullish :: "json option \<Rightarrow> string nullish option" where
  "z_string_nullish None = Some Undefined"
| "z_string_nullish (Some JNull) = Some Null"
| "z_string_nullish (Some (JStr s)) = Some (Value s)"
| "z_string_nullish _ = None"

fun z_number :: "json option \<Rightarrow> int option" where
  "z_number (Some (JNum n)) = Some n"
| "z_number _ = None"

fun z_number_optional :: "json option \<Rightarrow> int option option" where
  "z_number_optional None = Some None"
| "z_number_optional (Some (JNum n)) = Some (Some n)"
| "z_number_optional _ = None"

fun z_content_type :: "json option \<Rightarrow> content_type option" where
  "z_content_type (Some (JStr s)) =
     (if s = ''thread'' then Some Thread else if s = ''comment'' then Some Comment else None)"
| "z_content_type _ = None"

text \<open>\<open>AgentMentionedSchema.safeParse(req.body)\<close>: \<open>None\<close> is \<open>success === false\<close>.\<close>

fun AgentMentionedSchema_safeParse :: "req_body \<Rightarrow> agent_mentioned option" where
  "AgentMentionedSchema_safeParse (JsonBody (JObj kvs)) =
     do {
       a \<leftarrow> z_string_max 255 (map_of kvs ''community_id'');
       b \<leftarrow> z_string_max 255 (map_of kvs ''profile_name'');
       c \<leftarrow> z_string (map_of kvs ''profile_url'');
       d \<leftarrow> z_string (map_of kvs ''thread_title'');
       e \<leftarrow> z_string (map_of kvs ''object_url'');
       f \<leftarrow> z_string (map_of kvs ''object_summary'');
       g \<leftarrow> z_string_nullish (map_of kvs ''content_url'');
       h \<leftarrow> z_content_type (map_of kvs ''content_type'');
       i \<leftarrow> z_number (map_of kvs ''thread_id'');
       j \<leftarrow> z_number_optional (map_of kvs ''comment_id'');
       k \<leftarrow> z_number (map_of kvs ''author_user_id'');
       Some \<lparr> community_id = a, profile_name = b, profile_url = c, thread_title = d,
              object_url = e, object_summary = f, content_url = g, content_type = h,
              thread_id = i, comment_id = j, author_user_id = k \<rparr>
     }"
| "AgentMentionedSchema_safeParse _ = None"

subsection \<open>index.ts: signature validation\<close>

text \<open>
  The built-ins of Node that the validation calls are parameters:
  \<open>createHmac("sha256", key).update(value).digest("base64")\<close>,
  \<open>Buffer.from(s, "base64")\<close> (a string of bytes) and the time value of
  \<open>new Date(s)\<close> in milliseconds (\<open>None\<close> for an invalid date, whose \<open>getTime()\<close>
  is \<open>NaN\<close>). \<open>COMMON_WEBHOOK_SIGNING_KEYS\<close> holds the own keys of the configured
  object; \<open>None\<close> is an unset configuration. Times are in milliseconds, \<open>now\<close> is
  the clock read by \<open>new Date()\<close>. The validator's result is what it does with the
  request: \<open>next()\<close>, a response, or an exception; its warnings to the log are left
  out.
\<close>

record node_builtins =
  hmac_sha256_base64 :: "string \<Rightarrow> string \<Rightarrow> string"
  Buffer_from_base64 :: "string \<Rightarrow> string"
  Date_parse :: "string \<Rightarrow> int option"

record common_config =
  COMMON_WEBHOOK_SIGNING_KEYS :: "(string \<rightharpoonup> string) option"

text \<open>
  \<open>COMMON_WEBHOOK_SIGNING_KEYS[community_id]\<close> reads a property of a plain object: an
  own key gives its string; a name that \<open>Object.prototype\<close> defines gives the inherited
  function or object, which is truthy and no string; any other name gives
  \<open>undefined\<close>.
\<close>

definition Object_prototype_properties :: "string list" where
  "Object_prototype_properties =
     [''constructor'', ''__defineGetter__'', ''__defineSetter__'', ''hasOwnProperty'',
      ''__lookupGetter__'', ''__lookupSetter__'', ''isPrototypeOf'', ''propertyIsEnumerable'',
      ''toString'', ''valueOf'', ''__proto__'', ''toLocaleString'']"

datatype property_value = OwnString string | Inherited | NoProperty

definition get_property :: "(string \<rightharpoonup> string) \<Rightarrow> string \<Rightarrow> property_value" where
  "get_property obj name =
     (case obj name of
        Some v \<Rightarrow> OwnString v
      | None \<Rightarrow> if name \<in> set Object_prototype_properties then Inherited else NoProperty)"

record request =
  body :: req_body
  x_knock_signature :: "string option"

datatype response_body =
    NoBody
  | ErrorJson string
  | InvalidRequestBody
  | PlainText string
  | DefaultErrorPage

datatype 'a middleware_result = Next 'a | Send nat response_body | Throws js_error

text \<open>\<open>crypto.timingSafeEqual\<close> throws a \<open>RangeError\<close> on buffers of different length.\<close>

definition timingSafeEqual :: "string \<Rightarrow> string \<Rightarrow> js_error + bool" where
  "timingSafeEqual a b = (if length a \<noteq> length b then Inl RangeError else Inr (a = b))"

text \<open>\<open>`${timestamp}.${rawBody}`\<close>\<close>

definition signed_value :: "string \<Rightarrow> req_body \<Rightarrow> js_error + string" where
  "signed_value timestamp rawBody =
     (case template_string rawBody of
        Inl e \<Rightarrow> Inl e
      | Inr bodyText \<Rightarrow> Inr (timestamp @ ''.'' @ bodyText))"

text \<open>\<open>now.getTime() - date.getTime() < 60000\<close>; a comparison with \<open>NaN\<close> is false.\<close>

definition isWithinFiveMinutes :: "node_builtins \<Rightarrow> int \<Rightarrow> string \<Rightarrow> bool" where
  "isWithinFiveMinutes node now timestamp =
     (case Date_parse node timestamp of
        None \<Rightarrow> False
      | Some date \<Rightarrow> now - date < 60000)"

text \<open>
  \<open>sig.split(",")[0].substring(2)\<close> and \<open>sig.split(",")[1].substring(2)\<close>: the second
  throws a \<open>TypeError\<close> when the header has no comma.
\<close>

definition split_signature :: "string \<Rightarrow> js_error + (string \<times> string)" where
  "split_signature sig =
     (case js_split CHR '','' sig of
        p0 # p1 # _ \<Rightarrow> Inr (drop 2 p0, drop 2 p1)
      | _ \<Rightarrow> Inl TypeError)"

text \<open>Lines 165 to 189 of \<open>_validateWebhook\<close>, for a signing key and a header that are set.\<close>

definition check_signature ::
  "node_builtins \<Rightarrow> int \<Rightarrow> string \<Rightarrow> req_body \<Rightarrow> string \<Rightarrow> agent_mentioned \<Rightarrow>
   agent_mentioned middleware_result" where
  "check_signature node now signingKey rawBody sig parsed =
     (case split_signature sig of
        Inl e \<Rightarrow> Throws e
      | Inr (timestamp, originalSignature) \<Rightarrow>
          (case signed_value timestamp rawBody of
             Inl e \<Rightarrow> Throws e
           | Inr value \<Rightarrow>
               (let reconstructedSig = hmac_sha256_base64 node signingKey value in
                case timingSafeEqual (Buffer_from_base64 node originalSignature)
                       (Buffer_from_base64 node reconstructedSig) of
                  Inl e \<Rightarrow> Throws e
                | Inr isValid \<Rightarrow>
                    if isValid \<and> isWithinFiveMinutes node now timestamp then Next parsed
                    else Send 401 (PlainText ''UNAUTHORIZED''))))"

text \<open>
  The same lines for a signing key that is no string: \<open>createHmac\<close> throws a
  \<open>TypeError\<close>, after the header has been split and the value built.
\<close>

definition check_signature_without_string_key ::
  "req_body \<Rightarrow> string \<Rightarrow> agent_mentioned middleware_result" where
  "check_signature_without_string_key rawBody sig =
     (case split_signature sig of
        Inl e \<Rightarrow> Throws e
      | Inr (timestamp, originalSignature) \<Rightarrow>
          (case signed_value timestamp rawBody of
             Inl e \<Rightarrow> Throws e
           | Inr value \<Rightarrow> Throws TypeError))"

definition validateWebhook ::
  "common_config \<Rightarrow> node_builtins \<Rightarrow> int \<Rightarrow> request \<Rightarrow> agent_mentioned middleware_result" where
  "validateWebhook config node now req =
     (case AgentMentionedSchema_safeParse (body req) of
        None \<Rightarrow> Send 400 InvalidRequestBody
      | Some parsed \<Rightarrow>
          (let rawBody = body req in
           case COMMON_WEBHOOK_SIGNING_KEYS config of
             None \<Rightarrow> Next parsed
           | Some keys \<Rightarrow>
               (case get_property keys (community_id parsed) of
                  NoProperty \<Rightarrow> Send 401 (ErrorJson ''UNAUTHORIZED'')
                | OwnString signingKey \<Rightarrow>
                    if signingKey = [] then Send 401 (ErrorJson ''UNAUTHORIZED'')
                    else
                      (case x_knock_signature req of
                         None \<Rightarrow> Send 401 (ErrorJson ''UNAUTHORIZED'')
                       | Some sig \<Rightarrow>
                           if sig = [] then Send 401 (ErrorJson ''UNAUTHORIZED'')
                           else check_signature node now signingKey rawBody sig parsed)
                | Inherited \<Rightarrow>
                    (case x_knock_signature req of
                       None \<Rightarrow> Send 401 (ErrorJson ''UNAUTHORIZED'')
                     | Some sig \<Rightarrow>
                         if sig = [] then Send 401 (ErrorJson ''UNAUTHORIZED'')
                         else check_signature_without_string_key rawBody sig))))"

subsection \<open>index.ts: normalisation and dispatch\<close>

datatype fetch_response = FetchResponse (ok: bool) (status: nat) (response_text_result: "js_error + string")

definition augment :: "agent_mentioned \<Rightarrow> string \<Rightarrow> augmented_agent_mentioned" where
  "augment b content =
     \<lparr> community_id = community_id b, profile_name = profile_name b,
       profile_url = profile_url b, thread_title = thread_title b,
       object_url = object_url b, object_summary = object_summary b,
       content_url = content_url b, content_type = content_type b,
       thread_id = thread_id b, comment_id = comment_id b,
       author_user_id = author_user_id b, full_object_text = content \<rparr>"

text \<open>
  The \<open>try\<close> block of \<open>_handleCommonEvent\<close>: \<open>Inl\<close> of the inner sum is the early
  \<open>return res.status(400)\<close>, \<open>Inr\<close> the content handed on.
\<close>

definition fetch_content ::
  "(string \<Rightarrow> js_error + fetch_response) \<Rightarrow> agent_mentioned \<Rightarrow>
   ('st, (nat \<times> response_body) + string) io" where
  "fetch_content fetch b =
     (case content_url b of
        Value url \<Rightarrow>
          if url \<noteq> [] then
            io_bind (io_await (Fetch url) (fetch url)) (\<lambda>contentResponse.
              if \<not> ok contentResponse then
                io_bind (io_log Error ''[ERROR] Failed to fetch content from URL:'') (\<lambda>_.
                io_return (Inl (400, ErrorJson ''Failed to fetch content from the provided URL'')))
              else
                io_bind (io_settle (response_text_result contentResponse)) (\<lambda>content.
                io_bind (io_log Debug ''[INFO] Successfully fetched content from URL:'') (\<lambda>_.
                io_return (Inr content))))
          else io_return (Inr (object_summary b))
      | _ \<Rightarrow> io_return (Inr (object_summary b)))"

definition handleCommonEvent_try ::
  "(string \<Rightarrow> js_error + fetch_response) \<Rightarrow> 'st message_manager \<Rightarrow> 'st eliza_core \<Rightarrow> int \<Rightarrow>
   agent_mentioned \<Rightarrow> ('st, nat \<times> response_body) io" where
  "handleCommonEvent_try fetch mm core now b =
     io_bind (fetch_content fetch b) (\<lambda>r.
       case r of
         Inl response \<Rightarrow> io_return response
       | Inr content \<Rightarrow>
           io_bind (handleMessage mm core now (augment b content)) (\<lambda>_.
           io_bind (io_log Debug ''Successfully handled message. Returning 200 status code.'')
             (\<lambda>_. io_return (200, NoBody))))"

text \<open>The \<open>catch\<close> of \<open>_handleCommonEvent\<close>: log, answer 500.\<close>

definition handleCommonEvent ::
  "(string \<Rightarrow> js_error + fetch_response) \<Rightarrow> 'st message_manager \<Rightarrow> 'st eliza_core \<Rightarrow> int \<Rightarrow>
   agent_mentioned \<Rightarrow> 'st effect list \<times> (nat \<times> response_body)" where
  "handleCommonEvent fetch mm core now b =
     (case handleCommonEvent_try fetch mm core now b of
        (t, Inr response) \<Rightarrow> (t, response)
      | (t, Inl error) \<Rightarrow>
          (t @ [Log Error ''[ERROR] Error processing request:''],
           (500, ErrorJson ''Internal server error'')))"

text \<open>
  The \<open>POST\<close> route: \<open>_validateWebhook\<close>, then \<open>_handleCommonEvent\<close>. An error thrown
  by the async validator is passed on by \<open>express-async-errors\<close> to the error handler
  of the server, which answers 500.
\<close>

definition post_webhook ::
  "common_config \<Rightarrow> node_builtins \<Rightarrow> (string \<Rightarrow> js_error + fetch_response) \<Rightarrow>
   'st message_manager \<Rightarrow> 'st eliza_core \<Rightarrow> int \<Rightarrow> request \<Rightarrow>
   'st effect list \<times> (nat \<times> response_body)" where
  "post_webhook config node fetch mm core now req =
     (case validateWebhook config node now req of
        Send code b \<Rightarrow> ([], (code, b))
      | Throws e \<Rightarrow> ([], (500, DefaultErrorPage))
      | Next parsed \<Rightarrow> handleCommonEvent fetch mm core now parsed)"

section \<open>Concrete collaborators and events\<close>

text \<open>
  A runtime in which every awaited call resolves, a classifier that always answers
  \<open>RESPOND\<close>, a generator that always returns a reply, and an identity
  \<open>stringToUuid\<close>: the inputs at which the theorems below are instantiated. The agent is
  user 99 of Common.
\<close>

definition example_core :: "unit eliza_core" where
  "example_core =
     \<lparr> stringToUuid = (\<lambda>s. s), getEmbeddingZeroVector = [],
       composeContext = (\<lambda>state template. template),
       generateShouldRespond = (\<lambda>context. Inr (Some RESPOND)),
       generateMessageResponse =
         (\<lambda>context. Inr (Some \<lparr> response_text = ''hello'', response_action = Undefined \<rparr>)),
       commonShouldRespondTemplate = ''should respond?'',
       commonMessageHandlerTemplate = ''reply'',
       Clients_COMMON = ''common'' \<rparr>"

definition example_runtime :: "unit runtime" where
  "example_runtime =
     \<lparr> agentId = ''agent'', templates = None,
       ensureConnection = (\<lambda>u r n. Inr ()),
       createMemory = (\<lambda>m. Inr ()),
       composeState = (\<lambda>m msg name. Inr ()),
       evaluate = (\<lambda>m s b. Inr ()),
       processActions = (\<lambda>m ms s. Inr ()),
       databaseLog = (\<lambda>m c r. Inr ()) \<rparr>"

definition example_manager :: "unit message_manager" where
  "example_manager =
     \<lparr> runtime = example_runtime,
       createComment =
         (\<lambda>thread body parent.
            Inr \<lparr> res_id = 7, res_community_id = ''c'', res_thread_id = thread,
                  res_body = body, res_created_at = Some 1000, res_content_url = Undefined \<rparr>),
       commonUserId = 99, commonProfileName = ''agent'' \<rparr>"

definition thread_event :: "string \<Rightarrow> int \<Rightarrow> agent_mentioned" where
  "thread_event summary author =
     \<lparr> community_id = ''c'', profile_name = ''tim'', profile_url = ''p'',
       thread_title = ''t'', object_url = ''u'', object_summary = summary,
       content_url = Undefined, content_type = Thread, thread_id = 5, comment_id = None,
       author_user_id = author \<rparr>"

definition thread_mention :: "string \<Rightarrow> int \<Rightarrow> augmented_agent_mentioned" where
  "thread_mention summary author = augment (thread_event summary author) summary"

text \<open>A generator that resolves with no result.\<close>

definition silent_core :: "unit eliza_core" where
  "silent_core = example_core \<lparr> generateMessageResponse := (\<lambda>context. Inr None) \<rparr>"

text \<open>
  Stand-ins for the built-ins of Node, chosen so that terms evaluate: a keyed tag in
  place of the HMAC, the identity in place of the base64 decoding, and a clock that
  reads two ISO timestamps, one second and five minutes after the epoch. The tenant
  \<open>c\<close> has the secret \<open>secret\<close>.
\<close>

definition example_node :: node_builtins where
  "example_node =
     \<lparr> hmac_sha256_base64 = (\<lambda>key value. ''mac:'' @ key @ '':'' @ value),
       Buffer_from_base64 = (\<lambda>s. s),
       Date_parse =
         (\<lambda>s. if s = ''1970-01-01T00:00:01.000Z'' then Some 1000
              else if s = ''1970-01-01T00:05:00.000Z'' then Some 300000
              else None) \<rparr>"

definition example_config :: common_config where
  "example_config = \<lparr> COMMON_WEBHOOK_SIGNING_KEYS = Some [''c'' \<mapsto> ''secret''] \<rparr>"

definition example_body :: "string \<Rightarrow> req_body" where
  "example_body summary =
     JsonBody (JObj
       [(''community_id'', JStr ''c''), (''profile_name'', JStr ''tim''),
        (''profile_url'', JStr ''p''), (''thread_title'', JStr ''t''),
        (''object_url'', JStr ''u''), (''object_summary'', JStr summary),
        (''content_type'', JStr ''thread''), (''thread_id'', JNum 5),
        (''author_user_id'', JNum 42)])"

definition example_request :: "string \<Rightarrow> string \<Rightarrow> request" where
  "example_request summary signature =
     \<lparr> body = example_body summary, x_knock_signature = Some signature \<rparr>"

text \<open>A comment event whose \<open>comment_id\<close> is 0, and an event whose \<open>content_url\<close> is
  the empty string.\<close>

definition comment_zero :: augmented_agent_mentioned where
  "comment_zero = (thread_mention ''hi'' 42) \<lparr> content_type := Comment, comment_id := Some 0 \<rparr>"

text \<open>Comment 5 of thread 9, another message than comment 0 of thread 5; and the
  response of the Common API for a published comment with id 0.\<close>

definition comment_five :: augmented_agent_mentioned where
  "comment_five =
     (thread_mention ''hello'' 42)
       \<lparr> content_type := Comment, thread_id := 9, comment_id := Some 5 \<rparr>"

definition reply_zero :: create_comment_response where
  "reply_zero =
     \<lparr> res_id = 0, res_community_id = ''c'', res_thread_id = 5, res_body = ''hello'',
       res_created_at = Some 1000, res_content_url = Undefined \<rparr>"





section \<open>Basic facts\<close>

lemma js_includes_sublist: "js_includes t n \<longleftrightarrow> sublist n t"
  by (induction t) (auto simp: sublist_Cons_right)

lemma js_includes_iff: "js_includes t n \<longleftrightarrow> (\<exists>pre post. t = pre @ n @ post)"
  by (simp add: js_includes_sublist sublist_def)

lemma calls_io_bind:
  "calls (io_bind m f) = calls m @ (case outcome m of Inl e \<Rightarrow> [] | Inr x \<Rightarrow> calls (f x))"
  by (auto simp: calls_def outcome_def io_bind_def split: prod.splits sum.splits)

lemma outcome_io_bind:
  "outcome (io_bind m f) = (case outcome m of Inl e \<Rightarrow> Inl e | Inr x \<Rightarrow> outcome (f x))"
  by (auto simp: calls_def outcome_def io_bind_def split: prod.splits sum.splits)

lemma io_simps:
  "calls (io_return x) = []" "outcome (io_return x) = Inr x"
  "calls (io_throw e) = []" "outcome (io_throw e) = Inl e"
  "calls (io_await c r) = [c]" "outcome (io_await c r) = r"
  "calls (io_log l s) = [Log l s]" "outcome (io_log l s) = Inr ()"
  by (simp_all add: calls_def outcome_def io_return_def io_throw_def io_await_def io_log_def)

lemma number_toString_99: "number_toString 99 = ''99''"
  by code_simp

lemmas example_defs =
  example_core_def example_runtime_def example_manager_def thread_mention_def
  thread_event_def augment_def silent_core_def

lemma example_collaborators:
  "ensureConnection (runtime example_manager) u r n = Inr ()"
  "createMemory (runtime example_manager) m = Inr ()"
  "composeState (runtime example_manager) m msg nm = Inr ()"
  "evaluate (runtime example_manager) m st b = Inr ()"
  "processActions (runtime example_manager) m ms st = Inr ()"
  "databaseLog (runtime example_manager) m c g = Inr ()"
  "agentId (runtime example_manager) = ''agent''"
  "templates (runtime example_manager) = None"
  "commonUserId example_manager = 99"
  "commonProfileName example_manager = ''agent''"
  by (simp_all add: example_defs)

lemma thread_mention_fields:
  "profile_name (thread_mention s a) = ''tim''"
  "thread_id (thread_mention s a) = 5"
  "comment_id (thread_mention s a) = None"
  "author_user_id (thread_mention s a) = a"
  "full_object_text (thread_mention s a) = s"
  "content_type (thread_mention s a) = Thread"
  "content_url (thread_event s a) = Undefined"
  "object_summary (thread_event s a) = s"
  by (simp_all add: example_defs)

lemmas io_defs =
  io_bind_def io_await_def io_log_def io_return_def io_throw_def io_settle_def

lemma number_toString_examples:
  "number_toString 0 = ''0''" "number_toString 5 = ''5''" "number_toString 6 = ''6''"
  "number_toString 7 = ''7''" "number_toString 9 = ''9''" "number_toString 42 = ''42''"
  by code_simp+

lemma generateMemoryIds_message:
  "\<exists>ids. generateMemoryIds mm core (Some message) None = Some ids"
  by (simp add: generateMemoryIds_def)

lemma shouldRespond_self:
  "author_user_id message = commonUserId mm \<Longrightarrow>
   shouldRespond mm core message state = ([Log Debug ''Skipping message from self''], Inr False)"
  by (simp add: shouldRespond_def io_defs)

lemma shouldRespond_calls:
  "set (calls (shouldRespond mm core message state))
     \<subseteq> {Log Debug ''Skipping message from self''} \<union> range GenerateShouldRespond"
  by (auto simp: shouldRespond_def calls_io_bind io_simps Let_def)

text \<open>The runs of \<open>handleMessage\<close>, by what the collaborators answer.\<close>

lemma handleMessage_first_calls:
  assumes "generateMemoryIds mm core (Some message) None = Some ids"
    and "mem = inbound_memory mm core now ids message"
  shows "calls (handleMessage mm core now message)
           = [EnsureConnection (userId ids) (roomId ids) (profile_name message)]
       \<or> (\<exists>rest. calls (handleMessage mm core now message)
             = EnsureConnection (userId ids) (roomId ids) (profile_name message)
                 # CreateMemory mem # rest
             \<and> (rest = [] \<or> createMemory (runtime mm) mem = Inr ()))"
  unfolding assms(2)
  by (auto simp: handleMessage_def assms(1) calls_io_bind outcome_io_bind io_simps Let_def
        split: sum.splits)

lemma handleMessage_decision_position:
  assumes "generateMemoryIds mm core (Some message) None = Some ids"
    and "mem = inbound_memory mm core now ids message"
    and "ensureConnection (runtime mm) (userId ids) (roomId ids) (profile_name message) = Inr ()"
    and "createMemory (runtime mm) mem = Inr ()"
    and "composeState (runtime mm) mem message (commonProfileName mm) = Inr state"
  shows "\<exists>rest. calls (handleMessage mm core now message)
           = [EnsureConnection (userId ids) (roomId ids) (profile_name message),
              CreateMemory mem, ComposeState mem message (commonProfileName mm)]
             @ calls (shouldRespond mm core message state) @ rest"
  using assms(1) assms(3-5) unfolding assms(2)
  by (simp add: handleMessage_def calls_io_bind outcome_io_bind io_simps Let_def)

lemma handleMessage_skipped:
  assumes "generateMemoryIds mm core (Some message) None = Some ids"
    and "mem = inbound_memory mm core now ids message"
    and "ensureConnection (runtime mm) (userId ids) (roomId ids) (profile_name message) = Inr ()"
    and "createMemory (runtime mm) mem = Inr ()"
    and "composeState (runtime mm) mem message (commonProfileName mm) = Inr state"
    and "shouldRespond mm core message state = (t, Inr False)"
  shows "handleMessage mm core now message =
          ([EnsureConnection (userId ids) (roomId ids) (profile_name message),
            CreateMemory mem, ComposeState mem message (commonProfileName mm)] @ t @
           [Log Debug ''Not responding to message'', Evaluate mem state False],
           evaluate (runtime mm) mem state False)"
  using assms(1) assms(3-6) unfolding assms(2)
  by (simp add: handleMessage_def io_defs Let_def)

lemma handleMessage_nothing_generated:
  assumes "generateMemoryIds mm core (Some message) None = Some ids"
    and "mem = inbound_memory mm core now ids message"
    and "ensureConnection (runtime mm) (userId ids) (roomId ids) (profile_name message) = Inr ()"
    and "createMemory (runtime mm) mem = Inr ()"
    and "composeState (runtime mm) mem message (commonProfileName mm) = Inr state"
    and "shouldRespond mm core message state = (t, Inr True)"
    and "context = composeContext core state
             (pick_template (templates (runtime mm)) character_commonMessageHandlerTemplate
                character_messageHandlerTemplate (commonMessageHandlerTemplate core))"
    and "generateMessageResponse core context = Inr None"
  shows "handleMessage mm core now message =
          ([EnsureConnection (userId ids) (roomId ids) (profile_name message),
            CreateMemory mem, ComposeState mem message (commonProfileName mm)] @ t @
           [Log Debug ''[Common Client] Generating response'',
            GenerateMessageResponse context,
            Log Error ''No response from generateMessageResponse''],
           Inl TypeError)"
  using assms(1) assms(3-6) assms(8) unfolding assms(2) assms(7)
  by (simp add: handleMessage_def generateResponse_def io_defs Let_def)

lemma handleMessage_replied:
  assumes "generateMemoryIds mm core (Some message) None = Some ids"
    and "mem = inbound_memory mm core now ids message"
    and "ensureConnection (runtime mm) (userId ids) (roomId ids) (profile_name message) = Inr ()"
    and "createMemory (runtime mm) mem = Inr ()"
    and "composeState (runtime mm) mem message (commonProfileName mm) = Inr state"
    and "shouldRespond mm core message state = (t, Inr True)"
    and "context = composeContext core state
             (pick_template (templates (runtime mm)) character_commonMessageHandlerTemplate
                character_messageHandlerTemplate (commonMessageHandlerTemplate core))"
    and "generateMessageResponse core context = Inr (Some r)"
    and "databaseLog (runtime mm) mem context r = Inr ()"
    and "createComment mm (thread_id message) (response_text r) (comment_id message) = Inr res"
    and "generateMemoryIds mm core None (Some res) = Some resIds"
    and "resMemory = reply_memory mm core resIds res"
    and "createMemory (runtime mm) resMemory = Inr ()"
    and "truthy_string (response_action r) \<Longrightarrow>
         processActions (runtime mm) mem [resMemory] state = Inr ()"
  shows "handleMessage mm core now message =
          ([EnsureConnection (userId ids) (roomId ids) (profile_name message),
            CreateMemory mem, ComposeState mem message (commonProfileName mm)] @ t @
           [Log Debug ''[Common Client] Generating response'',
            GenerateMessageResponse context,
            DatabaseLog mem context r,
            CreateComment (thread_id message) (response_text r) (comment_id message),
            CreateMemory resMemory] @
           (if truthy_string (response_action r) then [ProcessActions mem [resMemory] state]
            else []) @
           [Evaluate mem state True],
           evaluate (runtime mm) mem state True)"
  using assms(1) assms(3-6) assms(8-11) assms(13-14) unfolding assms(2) assms(7) assms(12)
  by (simp add: handleMessage_def generateResponse_def io_defs Let_def)

lemma handleMessage_negative:
  assumes "generateMemoryIds mm core (Some message) None = Some ids"
    and "\<And>state. outcome (shouldRespond mm core message state) \<noteq> Inr True"
  shows "(\<forall>c. GenerateMessageResponse c \<notin> set (calls (handleMessage mm core now message)))
       \<and> (\<forall>t b p. CreateComment t b p \<notin> set (calls (handleMessage mm core now message)))"
proof -
  have neg: "outcome (shouldRespond mm core message state) = Inr b \<Longrightarrow> \<not> b" for state b
    using assms(2) [of state] by auto
  have neg': "Inr b = outcome (shouldRespond mm core message state) \<Longrightarrow> \<not> b" for state b
    using neg [of state b] by simp
  show ?thesis
    using shouldRespond_calls [of mm core message]
    by (auto simp: handleMessage_def assms(1) calls_io_bind outcome_io_bind io_simps Let_def
          split: sum.splits dest: neg neg')
qed

lemma handleCommonEvent_without_url:
  assumes "\<not> truthy_string (content_url b)"
  shows "handleCommonEvent fetch mm core now b =
           (case handleMessage mm core now (augment b (object_summary b)) of
              (t, Inr u) \<Rightarrow>
                (t @ [Log Debug ''Successfully handled message. Returning 200 status code.''],
                 (200, NoBody))
            | (t, Inl e) \<Rightarrow>
                (t @ [Log Error ''[ERROR] Error processing request:''],
                 (500, ErrorJson ''Internal server error'')))"
  using assms
  by (cases "content_url b")
     (auto simp: handleCommonEvent_def handleCommonEvent_try_def fetch_content_def io_defs
        split: prod.splits sum.splits)

lemma example_ids:
  "generateMemoryIds example_manager example_core (Some (thread_mention s 42)) None
     = Some \<lparr> roomId = ''c-5-agent'', userId = ''42-agent'', messageId = ''thread-5-agent'' \<rparr>"
  "generateMemoryIds example_manager silent_core (Some (thread_mention s 42)) None
     = Some \<lparr> roomId = ''c-5-agent'', userId = ''42-agent'', messageId = ''thread-5-agent'' \<rparr>"
  "generateMemoryIds example_manager example_core (Some (thread_mention s 99)) None
     = Some \<lparr> roomId = ''c-5-agent'', userId = ''agent'', messageId = ''thread-5-agent'' \<rparr>"
  by (simp_all add: generateMemoryIds_def example_defs number_toString_examples)

lemma example_reply_ids:
  "generateMemoryIds example_manager example_core None
     (Some \<lparr> res_id = 7, res_community_id = ''c'', res_thread_id = 5,
             res_body = ''hello'', res_created_at = Some 1000, res_content_url = Undefined \<rparr>)
     = Some \<lparr> roomId = ''c-5-agent'', userId = ''agent'', messageId = ''comment-7-agent'' \<rparr>"
  by (simp add: generateMemoryIds_def example_defs number_toString_examples)

lemma example_shouldRespond:
  "shouldRespond example_manager example_core (thread_mention ''hi @agent'' 42) state
     = ([], Inr False)"
  "shouldRespond example_manager example_core (thread_mention ''hello there'' 42) state
     = ([], Inr False)"
  "shouldRespond example_manager example_core
     (thread_mention ''hi [@agent](/profile/id/99)'' 42) state
     = ([GenerateShouldRespond ''should respond?''], Inr True)"
  "shouldRespond example_manager silent_core
     (thread_mention ''hi [@agent](/profile/id/99)'' 42) state
     = ([GenerateShouldRespond ''should respond?''], Inr True)"
  by (simp_all add: shouldRespond_def example_defs number_toString_99 io_defs pick_template_def)

lemma example_generation:
  "composeContext example_core state
     (pick_template (templates (runtime example_manager)) character_commonMessageHandlerTemplate
        character_messageHandlerTemplate (commonMessageHandlerTemplate example_core)) = ''reply''"
  "composeContext silent_core state
     (pick_template (templates (runtime example_manager)) character_commonMessageHandlerTemplate
        character_messageHandlerTemplate (commonMessageHandlerTemplate silent_core)) = ''reply''"
  "generateMessageResponse example_core c
     = Inr (Some \<lparr> response_text = ''hello'', response_action = Undefined \<rparr>)"
  "generateMessageResponse silent_core c = Inr None"
  "createComment example_manager 5 txt parent
     = Inr \<lparr> res_id = 7, res_community_id = ''c'', res_thread_id = 5,
             res_body = txt, res_created_at = Some 1000, res_content_url = Undefined \<rparr>"
  by (simp_all add: example_defs pick_template_def)

section \<open>The response decision\<close>

text \<open>
  Claim C10. For an event of another author, the classifier is reached exactly when the
  full text contains the decimal string of the agent's numeric Common user id somewhere;
  when it does not, \<open>_shouldRespond\<close> returns false without any call. The profile name
  of the agent plays no part in the decision.
\<close>

theorem mention_gate_is_numeric_id_substring:
  assumes "author_user_id message \<noteq> commonUserId mm"
  shows "((\<exists>context. GenerateShouldRespond context
                        \<in> set (calls (shouldRespond mm core message state)))
          \<longleftrightarrow> (\<exists>pre post. full_object_text message
                             = pre @ number_toString (commonUserId mm) @ post))
       \<and> (\<not> (\<exists>pre post. full_object_text message
                             = pre @ number_toString (commonUserId mm) @ post)
            \<longrightarrow> shouldRespond mm core message state = io_return False)
       \<and> shouldRespond (mm\<lparr>commonProfileName := name\<rparr>) core message state
           = shouldRespond mm core message state"
  using assms
  by (auto simp: shouldRespond_def js_includes_iff calls_io_bind io_simps Let_def)

theorem mention_gate_is_numeric_id_substring_witness:
  "author_user_id (thread_mention ''hi [@agent](/profile/id/99)'' 42) \<noteq> commonUserId example_manager
   \<and> GenerateShouldRespond ''should respond?''
        \<in> set (calls (shouldRespond example_manager example_core
                         (thread_mention ''hi [@agent](/profile/id/99)'' 42) ()))
   \<and> shouldRespond example_manager example_core (thread_mention ''hi @agent'' 42) ()
       = io_return False"
proof -
  have h: "author_user_id (thread_mention s 42) \<noteq> commonUserId example_manager" for s
    by (simp add: example_defs)
  have a: "full_object_text (thread_mention ''hi [@agent](/profile/id/99)'' 42)
           = ''hi [@agent](/profile/id/'' @ number_toString (commonUserId example_manager) @ '')''"
    by (simp add: example_defs number_toString_99)
  have b: "\<not> js_includes (full_object_text (thread_mention ''hi @agent'' 42))
               (number_toString (commonUserId example_manager))"
    by (simp add: example_defs number_toString_99)
  from mention_gate_is_numeric_id_substring
         [where message = "thread_mention ''hi [@agent](/profile/id/99)'' 42"
            and mm = example_manager and core = example_core and state = "()", OF h] a
  obtain c where c: "GenerateShouldRespond c
      \<in> set (calls (shouldRespond example_manager example_core
                      (thread_mention ''hi [@agent](/profile/id/99)'' 42) ()))"
    by blast
  then have "c = ''should respond?''"
    by (auto simp: shouldRespond_def calls_io_bind io_simps Let_def example_defs
          pick_template_def split: if_splits)
  with c b h
    mention_gate_is_numeric_id_substring
      [where message = "thread_mention ''hi @agent'' 42"
         and mm = example_manager and core = example_core and state = "()", OF h]
  show ?thesis
    by (simp add: js_includes_iff)
qed

text \<open>
  Claim C5. \<open>_shouldRespond\<close> applies three guards in order. An event written by the
  agent itself is answered with false, the classifier is not asked, and
  \<open>handleMessage\<close> neither generates nor publishes for it, whatever its text. An event
  of another author whose full text does not contain the agent's id is answered with
  false and makes no call at all. Otherwise the classifier is asked exactly once and
  its verdict decides: true for \<open>RESPOND\<close>, false for every other verdict, and a
  rejection of the classifier is passed on.
\<close>

theorem shouldRespond_three_guards:
  "(author_user_id message = commonUserId mm \<longrightarrow>
      outcome (shouldRespond mm core message state) = Inr False
      \<and> (\<forall>c. GenerateShouldRespond c \<notin> set (calls (shouldRespond mm core message state)))
      \<and> (\<forall>c. GenerateMessageResponse c \<notin> set (calls (handleMessage mm core now message)))
      \<and> (\<forall>t b p. CreateComment t b p \<notin> set (calls (handleMessage mm core now message))))
   \<and> (author_user_id message \<noteq> commonUserId mm
        \<and> \<not> js_includes (full_object_text message) (number_toString (commonUserId mm)) \<longrightarrow>
      shouldRespond mm core message state = io_return False)
   \<and> (author_user_id message \<noteq> commonUserId mm
        \<and> js_includes (full_object_text message) (number_toString (commonUserId mm)) \<longrightarrow>
      (\<exists>context.
          calls (shouldRespond mm core message state) = [GenerateShouldRespond context]
          \<and> outcome (shouldRespond mm core message state)
              = (case generateShouldRespond core context of
                   Inl e \<Rightarrow> Inl e
                 | Inr verdict \<Rightarrow> Inr (verdict = Some RESPOND))))"
proof (intro conjI impI)
  assume self: "author_user_id message = commonUserId mm"
  show "outcome (shouldRespond mm core message state) = Inr False"
    by (simp add: shouldRespond_self [OF self] outcome_def)
  show "\<forall>c. GenerateShouldRespond c \<notin> set (calls (shouldRespond mm core message state))"
    by (simp add: shouldRespond_self [OF self] calls_def)
  obtain ids where ids: "generateMemoryIds mm core (Some message) None = Some ids"
    using generateMemoryIds_message by blast
  have neg: "outcome (shouldRespond mm core message st) \<noteq> Inr True" for st
    by (simp add: shouldRespond_self [OF self] outcome_def)
  from handleMessage_negative [OF ids neg]
  show "\<forall>c. GenerateMessageResponse c \<notin> set (calls (handleMessage mm core now message))"
    and "\<forall>t b p. CreateComment t b p \<notin> set (calls (handleMessage mm core now message))"
    by blast+
next
  assume "author_user_id message \<noteq> commonUserId mm
        \<and> \<not> js_includes (full_object_text message) (number_toString (commonUserId mm))"
  then show "shouldRespond mm core message state = io_return False"
    by (simp add: shouldRespond_def)
next
  assume "author_user_id message \<noteq> commonUserId mm
        \<and> js_includes (full_object_text message) (number_toString (commonUserId mm))"
  then show "\<exists>context.
          calls (shouldRespond mm core message state) = [GenerateShouldRespond context]
          \<and> outcome (shouldRespond mm core message state)
              = (case generateShouldRespond core context of
                   Inl e \<Rightarrow> Inl e
                 | Inr verdict \<Rightarrow> Inr (verdict = Some RESPOND))"
    by (simp add: shouldRespond_def Let_def calls_io_bind outcome_io_bind io_simps
          split: sum.splits)
qed

text \<open>The three guards at a self event that mentions the agent, at an event without a
  mention, and at a mention by user 42.\<close>

theorem shouldRespond_three_guards_witness:
  "outcome (shouldRespond example_manager example_core (thread_mention ''I am user 99'' 99) ())
     = Inr False
   \<and> (\<forall>t b p. CreateComment t b p
         \<notin> set (calls (handleMessage example_manager example_core 0
                          (thread_mention ''I am user 99'' 99))))
   \<and> (\<forall>c. GenerateMessageResponse c
         \<notin> set (calls (handleMessage example_manager example_core 0
                          (thread_mention ''I am user 99'' 99))))
   \<and> shouldRespond example_manager example_core (thread_mention ''hello there'' 42) ()
       = io_return False
   \<and> outcome (shouldRespond example_manager example_core
                (thread_mention ''ping 99'' 42) ()) = Inr True"
proof -
  have self: "author_user_id (thread_mention ''I am user 99'' 99) = commonUserId example_manager"
    by (simp add: thread_mention_fields example_collaborators)
  have other: "author_user_id (thread_mention ''hello there'' 42) \<noteq> commonUserId example_manager
        \<and> \<not> js_includes (full_object_text (thread_mention ''hello there'' 42))
              (number_toString (commonUserId example_manager))"
    by (simp add: thread_mention_fields example_collaborators number_toString_99)
  have mention: "author_user_id (thread_mention ''ping 99'' 42) \<noteq> commonUserId example_manager
        \<and> js_includes (full_object_text (thread_mention ''ping 99'' 42))
              (number_toString (commonUserId example_manager))"
    by (simp add: thread_mention_fields example_collaborators number_toString_99)
  have verdict: "generateShouldRespond example_core c = Inr (Some RESPOND)" for c
    by (simp add: example_core_def)
  note a = shouldRespond_three_guards
             [where message = "thread_mention ''I am user 99'' 99" and mm = example_manager
                and core = example_core and state = "()" and now = 0]
  note b = shouldRespond_three_guards
             [where message = "thread_mention ''hello there'' 42" and mm = example_manager
                and core = example_core and state = "()" and now = 0]
  note c = shouldRespond_three_guards
             [where message = "thread_mention ''ping 99'' 42" and mm = example_manager
                and core = example_core and state = "()" and now = 0]
  from a self have 1: "outcome (shouldRespond example_manager example_core
                         (thread_mention ''I am user 99'' 99) ()) = Inr False"
    "\<forall>t b p. CreateComment t b p
         \<notin> set (calls (handleMessage example_manager example_core 0
                          (thread_mention ''I am user 99'' 99)))"
    "\<forall>c. GenerateMessageResponse c
         \<notin> set (calls (handleMessage example_manager example_core 0
                          (thread_mention ''I am user 99'' 99)))"
    by blast+
  from b other have 2: "shouldRespond example_manager example_core
                          (thread_mention ''hello there'' 42) () = io_return False"
    by blast
  from c mention have 3: "outcome (shouldRespond example_manager example_core
                (thread_mention ''ping 99'' 42) ()) = Inr True"
    by (auto simp: verdict)
  from 1 2 3 show ?thesis by blast
qed

section \<open>The orchestrator\<close>

text \<open>
  Claim C7. In every run of \<open>handleMessage\<close> the first two calls are
  \<open>ensureConnection\<close> and \<open>createMemory\<close> of the inbound memory; any other call
  comes later and only after that \<open>createMemory\<close> has resolved. The calls of the
  decision follow the recording and the composition of the state. When the decision is
  negative the run ends with the evaluation hook called on the recorded memory and the
  composed state, and no comment is created.
\<close>

theorem inbound_memory_recorded_before_decision:
  assumes "generateMemoryIds mm core (Some message) None = Some ids"
    and "mem = inbound_memory mm core now ids message"
    and "cs = calls (handleMessage mm core now message)"
  shows "(\<forall>i < length cs.
            cs ! i \<noteq> EnsureConnection (userId ids) (roomId ids) (profile_name message)
            \<and> cs ! i \<noteq> CreateMemory mem \<longrightarrow>
            2 \<le> i \<and> cs ! 1 = CreateMemory mem \<and> createMemory (runtime mm) mem = Inr ())
       \<and> (\<forall>state.
            ensureConnection (runtime mm) (userId ids) (roomId ids) (profile_name message) = Inr ()
            \<and> createMemory (runtime mm) mem = Inr ()
            \<and> composeState (runtime mm) mem message (commonProfileName mm) = Inr state \<longrightarrow>
            (\<exists>rest. cs = [EnsureConnection (userId ids) (roomId ids) (profile_name message),
                          CreateMemory mem, ComposeState mem message (commonProfileName mm)]
                         @ calls (shouldRespond mm core message state) @ rest))
       \<and> (\<forall>state t.
            ensureConnection (runtime mm) (userId ids) (roomId ids) (profile_name message) = Inr ()
            \<and> createMemory (runtime mm) mem = Inr ()
            \<and> composeState (runtime mm) mem message (commonProfileName mm) = Inr state
            \<and> shouldRespond mm core message state = (t, Inr False) \<longrightarrow>
            handleMessage mm core now message =
              ([EnsureConnection (userId ids) (roomId ids) (profile_name message),
                CreateMemory mem, ComposeState mem message (commonProfileName mm)] @ t @
               [Log Debug ''Not responding to message'', Evaluate mem state False],
               evaluate (runtime mm) mem state False)
            \<and> (\<forall>thread body parent. CreateComment thread body parent \<notin> set cs))"
proof (intro conjI allI impI)
  fix i
  assume i: "i < length cs"
    and ne: "cs ! i \<noteq> EnsureConnection (userId ids) (roomId ids) (profile_name message)
            \<and> cs ! i \<noteq> CreateMemory mem"
  from handleMessage_first_calls [OF assms(1,2)]
  consider "cs = [EnsureConnection (userId ids) (roomId ids) (profile_name message)]"
    | rest where "cs = EnsureConnection (userId ids) (roomId ids) (profile_name message)
                 # CreateMemory mem # rest"
      "rest = [] \<or> createMemory (runtime mm) mem = Inr ()"
    unfolding assms(3) by blast
  then have "2 \<le> i \<and> cs ! 1 = CreateMemory mem \<and> createMemory (runtime mm) mem = Inr ()"
  proof cases
    case 1
    with i ne show ?thesis by simp
  next
    case 2
    with i ne show ?thesis
      by (cases i; cases "i - 1") auto
  qed
  then show "2 \<le> i" "cs ! 1 = CreateMemory mem" "createMemory (runtime mm) mem = Inr ()"
    by simp_all
next
  fix state
  assume "ensureConnection (runtime mm) (userId ids) (roomId ids) (profile_name message) = Inr ()
            \<and> createMemory (runtime mm) mem = Inr ()
            \<and> composeState (runtime mm) mem message (commonProfileName mm) = Inr state"
  then show "\<exists>rest. cs = [EnsureConnection (userId ids) (roomId ids) (profile_name message),
                          CreateMemory mem, ComposeState mem message (commonProfileName mm)]
                         @ calls (shouldRespond mm core message state) @ rest"
    unfolding assms(3) using handleMessage_decision_position [OF assms(1,2)] by blast
next
  fix state t
  assume h: "ensureConnection (runtime mm) (userId ids) (roomId ids) (profile_name message) = Inr ()
            \<and> createMemory (runtime mm) mem = Inr ()
            \<and> composeState (runtime mm) mem message (commonProfileName mm) = Inr state
            \<and> shouldRespond mm core message state = (t, Inr False)"
  then have eq: "handleMessage mm core now message =
              ([EnsureConnection (userId ids) (roomId ids) (profile_name message),
                CreateMemory mem, ComposeState mem message (commonProfileName mm)] @ t @
               [Log Debug ''Not responding to message'', Evaluate mem state False],
               evaluate (runtime mm) mem state False)"
    using handleMessage_skipped [OF assms(1,2)] by blast
  then show "handleMessage mm core now message =
              ([EnsureConnection (userId ids) (roomId ids) (profile_name message),
                CreateMemory mem, ComposeState mem message (commonProfileName mm)] @ t @
               [Log Debug ''Not responding to message'', Evaluate mem state False],
               evaluate (runtime mm) mem state False)" .
  fix thread body parent
  from h have "set t \<subseteq> {Log Debug ''Skipping message from self''} \<union> range GenerateShouldRespond"
    using shouldRespond_calls [of mm core message state] by (simp add: calls_def)
  then show "CreateComment thread body parent \<notin> set cs"
    unfolding assms(3) eq by (auto simp: calls_def)
qed

text \<open>An event of user 42 that does not mention the agent: recorded, then skipped.\<close>

theorem inbound_memory_recorded_before_decision_witness:
  "handleMessage example_manager example_core 0 (thread_mention ''hello there'' 42)
     = ([EnsureConnection ''42-agent'' ''c-5-agent'' ''tim'',
         CreateMemory
           (inbound_memory example_manager example_core 0
              \<lparr> roomId = ''c-5-agent'', userId = ''42-agent'', messageId = ''thread-5-agent'' \<rparr>
              (thread_mention ''hello there'' 42)),
         ComposeState
           (inbound_memory example_manager example_core 0
              \<lparr> roomId = ''c-5-agent'', userId = ''42-agent'', messageId = ''thread-5-agent'' \<rparr>
              (thread_mention ''hello there'' 42))
           (thread_mention ''hello there'' 42) ''agent'',
         Log Debug ''Not responding to message'',
         Evaluate
           (inbound_memory example_manager example_core 0
              \<lparr> roomId = ''c-5-agent'', userId = ''42-agent'', messageId = ''thread-5-agent'' \<rparr>
              (thread_mention ''hello there'' 42))
           () False],
        Inr ())
   \<and> createMemory (runtime example_manager)
         (inbound_memory example_manager example_core 0
            \<lparr> roomId = ''c-5-agent'', userId = ''42-agent'', messageId = ''thread-5-agent'' \<rparr>
            (thread_mention ''hello there'' 42)) = Inr ()"
proof -
  note T = inbound_memory_recorded_before_decision [OF example_ids(1) refl refl, of 0 "''hello there''"]
  from T [THEN conjunct2, THEN conjunct2, rule_format, of "()" "[]"] show ?thesis
    by (simp add: example_collaborators example_shouldRespond thread_mention_fields)
qed

text \<open>
  Claim C8. When the generator resolves with no result, \<open>_generateResponse\<close> logs the
  condition and returns \<open>undefined\<close>; \<open>handleMessage\<close> then reads \<open>response.text\<close>.
  No comment is created, but the run ends in a \<open>TypeError\<close>, which
  \<open>_handleCommonEvent\<close> answers with status 500: the event does not complete without
  an error.
\<close>

theorem missing_generation_result_raises:
  assumes "generateMemoryIds mm core (Some message) None = Some ids"
    and "mem = inbound_memory mm core now ids message"
    and "ensureConnection (runtime mm) (userId ids) (roomId ids) (profile_name message) = Inr ()"
    and "createMemory (runtime mm) mem = Inr ()"
    and "composeState (runtime mm) mem message (commonProfileName mm) = Inr state"
    and "shouldRespond mm core message state = (t, Inr True)"
    and "context = composeContext core state
             (pick_template (templates (runtime mm)) character_commonMessageHandlerTemplate
                character_messageHandlerTemplate (commonMessageHandlerTemplate core))"
    and "generateMessageResponse core context = Inr None"
  shows "outcome (handleMessage mm core now message) = Inl TypeError
       \<and> last (calls (handleMessage mm core now message))
           = Log Error ''No response from generateMessageResponse''
       \<and> (\<forall>thread body parent.
             CreateComment thread body parent \<notin> set (calls (handleMessage mm core now message)))
       \<and> (\<forall>b fetch. \<not> truthy_string (content_url b) \<and> message = augment b (object_summary b) \<longrightarrow>
             snd (handleCommonEvent fetch mm core now b)
               = (500, ErrorJson ''Internal server error''))"
proof -
  note run = handleMessage_nothing_generated [OF assms]
  have t: "set t \<subseteq> {Log Debug ''Skipping message from self''} \<union> range GenerateShouldRespond"
    using shouldRespond_calls [of mm core message state] assms(6) by (simp add: calls_def)
  have "\<forall>thread body parent.
          CreateComment thread body parent \<notin> set (calls (handleMessage mm core now message))"
    using t unfolding run by (auto simp: calls_def)
  moreover have "\<forall>b fetch. \<not> truthy_string (content_url b) \<and> message = augment b (object_summary b) \<longrightarrow>
             snd (handleCommonEvent fetch mm core now b)
               = (500, ErrorJson ''Internal server error'')"
    using run by (auto simp: handleCommonEvent_without_url)
  ultimately show ?thesis
    unfolding run by (simp add: calls_def outcome_def)
qed

text \<open>A mention by user 42 with a generator that returns nothing.\<close>

theorem missing_generation_result_raises_witness:
  "outcome (handleMessage example_manager silent_core 0
              (thread_mention ''hi [@agent](/profile/id/99)'' 42)) = Inl TypeError
   \<and> last (calls (handleMessage example_manager silent_core 0
                    (thread_mention ''hi [@agent](/profile/id/99)'' 42)))
       = Log Error ''No response from generateMessageResponse''
   \<and> snd (handleCommonEvent (\<lambda>url. Inl (Rejected ''unused'')) example_manager silent_core 0
            (thread_event ''hi [@agent](/profile/id/99)'' 42))
       = (500, ErrorJson ''Internal server error'')"
proof -
  note T = missing_generation_result_raises
             [OF example_ids(2) refl example_collaborators(1-3) example_shouldRespond(4)
                 example_generation(2) [symmetric] example_generation(4), of 0]
  have "\<not> truthy_string (content_url (thread_event ''hi [@agent](/profile/id/99)'' 42))
        \<and> thread_mention ''hi [@agent](/profile/id/99)'' 42
           = augment (thread_event ''hi [@agent](/profile/id/99)'' 42)
               (object_summary (thread_event ''hi [@agent](/profile/id/99)'' 42))"
    by (simp add: thread_mention_fields thread_mention_def)
  with T show ?thesis by blast
qed

text \<open>
  The end-to-end scenario with the text \<open>hi @agent\<close>, author 42 and agent 99: the text
  does not contain \<open>99\<close>, so the event is recorded and skipped; nothing is generated or
  published and one memory is created.
\<close>

theorem scenario_without_numeric_id_is_skipped:
  "handleMessage example_manager example_core 0 (thread_mention ''hi @agent'' 42)
     = ([EnsureConnection ''42-agent'' ''c-5-agent'' ''tim'',
         CreateMemory
           (inbound_memory example_manager example_core 0
              \<lparr> roomId = ''c-5-agent'', userId = ''42-agent'', messageId = ''thread-5-agent'' \<rparr>
              (thread_mention ''hi @agent'' 42)),
         ComposeState
           (inbound_memory example_manager example_core 0
              \<lparr> roomId = ''c-5-agent'', userId = ''42-agent'', messageId = ''thread-5-agent'' \<rparr>
              (thread_mention ''hi @agent'' 42))
           (thread_mention ''hi @agent'' 42) ''agent'',
         Log Debug ''Not responding to message'',
         Evaluate
           (inbound_memory example_manager example_core 0
              \<lparr> roomId = ''c-5-agent'', userId = ''42-agent'', messageId = ''thread-5-agent'' \<rparr>
              (thread_mention ''hi @agent'' 42))
           () False],
        Inr ())"
  using handleMessage_skipped [OF example_ids(1) refl example_collaborators(1-3)
          example_shouldRespond(1), of 0]
  by (simp add: example_collaborators thread_mention_fields)

text \<open>
  Claim C9, amended. For an event of another author whose full text contains the decimal
  id of the agent, with a classifier that answers \<open>RESPOND\<close>, a generator that returns
  a reply and collaborators that resolve: the run makes exactly one \<open>createComment\<close>
  call, on the event's thread, with the event's \<open>comment_id\<close> as \<open>parent_id\<close> (absent
  for an event without one), and exactly two \<open>createMemory\<close> calls, for the inbound
  event and for the reply; the reply is recorded under the agent's own id, in the room
  and under the message id derived from the response by the same string scheme.
\<close>

theorem reply_published_once_and_recorded:
  assumes "generateMemoryIds mm core (Some message) None = Some ids"
    and "mem = inbound_memory mm core now ids message"
    and "author_user_id message \<noteq> commonUserId mm"
    and "js_includes (full_object_text message) (number_toString (commonUserId mm))"
    and "ensureConnection (runtime mm) (userId ids) (roomId ids) (profile_name message) = Inr ()"
    and "createMemory (runtime mm) mem = Inr ()"
    and "composeState (runtime mm) mem message (commonProfileName mm) = Inr state"
    and "question = composeContext core state
             (pick_template (templates (runtime mm)) character_commonShouldRespondTemplate
                character_shouldRespondTemplate (commonShouldRespondTemplate core))"
    and "generateShouldRespond core question = Inr (Some RESPOND)"
    and "context = composeContext core state
             (pick_template (templates (runtime mm)) character_commonMessageHandlerTemplate
                character_messageHandlerTemplate (commonMessageHandlerTemplate core))"
    and "generateMessageResponse core context = Inr (Some r)"
    and "databaseLog (runtime mm) mem context r = Inr ()"
    and "createComment mm (thread_id message) (response_text r) (comment_id message) = Inr res"
    and "generateMemoryIds mm core None (Some res) = Some resIds"
    and "resMemory = reply_memory mm core resIds res"
    and "createMemory (runtime mm) resMemory = Inr ()"
    and "truthy_string (response_action r) \<Longrightarrow>
         processActions (runtime mm) mem [resMemory] state = Inr ()"
    and "cs = calls (handleMessage mm core now message)"
  shows "cs = [EnsureConnection (userId ids) (roomId ids) (profile_name message),
               CreateMemory mem, ComposeState mem message (commonProfileName mm),
               GenerateShouldRespond question,
               Log Debug ''[Common Client] Generating response'',
               GenerateMessageResponse context,
               DatabaseLog mem context r,
               CreateComment (thread_id message) (response_text r) (comment_id message),
               CreateMemory resMemory] @
              (if truthy_string (response_action r)
               then [ProcessActions mem [resMemory] state] else []) @
              [Evaluate mem state True]
       \<and> filter (\<lambda>e. \<exists>thread body parent. e = CreateComment thread body parent) cs
           = [CreateComment (thread_id message) (response_text r) (comment_id message)]
       \<and> filter (\<lambda>e. \<exists>m. e = CreateMemory m) cs = [CreateMemory mem, CreateMemory resMemory]
       \<and> memory_userId resMemory = agentId (runtime mm)
       \<and> memory_roomId resMemory
           = stringToUuid core (res_community_id res @ ''-'' @ number_toString (res_thread_id res)
                                @ ''-'' @ agentId (runtime mm))
       \<and> memory_id resMemory
           = stringToUuid core (''comment-'' @ number_toString (res_id res)
                                @ ''-'' @ agentId (runtime mm))"
proof -
  have sr: "shouldRespond mm core message state = ([GenerateShouldRespond question], Inr True)"
    using assms(3,4,9) unfolding assms(8)
    by (simp add: shouldRespond_def Let_def io_defs)
  have run: "cs = [EnsureConnection (userId ids) (roomId ids) (profile_name message),
               CreateMemory mem, ComposeState mem message (commonProfileName mm),
               GenerateShouldRespond question,
               Log Debug ''[Common Client] Generating response'',
               GenerateMessageResponse context,
               DatabaseLog mem context r,
               CreateComment (thread_id message) (response_text r) (comment_id message),
               CreateMemory resMemory] @
              (if truthy_string (response_action r)
               then [ProcessActions mem [resMemory] state] else []) @
              [Evaluate mem state True]"
    unfolding assms(18)
    using handleMessage_replied [OF assms(1,2) assms(5,6,7) sr assms(10-17)]
    by (simp add: calls_def)
  have ids: "memory_userId resMemory = agentId (runtime mm)"
    "memory_roomId resMemory
           = stringToUuid core (res_community_id res @ ''-'' @ number_toString (res_thread_id res)
                                @ ''-'' @ agentId (runtime mm))"
    "memory_id resMemory
           = stringToUuid core (''comment-'' @ number_toString (res_id res)
                                @ ''-'' @ agentId (runtime mm))"
    using assms(14) unfolding assms(15)
    by (auto simp: reply_memory_def generateMemoryIds_def)
  from run ids show ?thesis
    by simp
qed

text \<open>The scenario with the text \<open>hi [@agent](/profile/id/99)\<close>: one comment without
  parent, two memories.\<close>

theorem reply_published_once_and_recorded_witness:
  "calls (handleMessage example_manager example_core 0
            (thread_mention ''hi [@agent](/profile/id/99)'' 42))
     = [EnsureConnection ''42-agent'' ''c-5-agent'' ''tim'',
        CreateMemory
          (inbound_memory example_manager example_core 0
             \<lparr> roomId = ''c-5-agent'', userId = ''42-agent'', messageId = ''thread-5-agent'' \<rparr>
             (thread_mention ''hi [@agent](/profile/id/99)'' 42)),
        ComposeState
          (inbound_memory example_manager example_core 0
             \<lparr> roomId = ''c-5-agent'', userId = ''42-agent'', messageId = ''thread-5-agent'' \<rparr>
             (thread_mention ''hi [@agent](/profile/id/99)'' 42))
          (thread_mention ''hi [@agent](/profile/id/99)'' 42) ''agent'',
        GenerateShouldRespond ''should respond?'',
        Log Debug ''[Common Client] Generating response'',
        GenerateMessageResponse ''reply'',
        DatabaseLog
          (inbound_memory example_manager example_core 0
             \<lparr> roomId = ''c-5-agent'', userId = ''42-agent'', messageId = ''thread-5-agent'' \<rparr>
             (thread_mention ''hi [@agent](/profile/id/99)'' 42))
          ''reply'' \<lparr> response_text = ''hello'', response_action = Undefined \<rparr>,
        CreateComment 5 ''hello'' None,
        CreateMemory
          (reply_memory example_manager example_core
             \<lparr> roomId = ''c-5-agent'', userId = ''agent'', messageId = ''comment-7-agent'' \<rparr>
             \<lparr> res_id = 7, res_community_id = ''c'', res_thread_id = 5, res_body = ''hello'',
               res_created_at = Some 1000, res_content_url = Undefined \<rparr>),
        Evaluate
          (inbound_memory example_manager example_core 0
             \<lparr> roomId = ''c-5-agent'', userId = ''42-agent'', messageId = ''thread-5-agent'' \<rparr>
             (thread_mention ''hi [@agent](/profile/id/99)'' 42))
          () True]
   \<and> memory_userId
         (reply_memory example_manager example_core
            \<lparr> roomId = ''c-5-agent'', userId = ''agent'', messageId = ''comment-7-agent'' \<rparr>
            \<lparr> res_id = 7, res_community_id = ''c'', res_thread_id = 5, res_body = ''hello'',
              res_created_at = Some 1000, res_content_url = Undefined \<rparr>) = ''agent''"
proof -
  have gate: "author_user_id (thread_mention ''hi [@agent](/profile/id/99)'' 42)
                \<noteq> commonUserId example_manager"
    "js_includes (full_object_text (thread_mention ''hi [@agent](/profile/id/99)'' 42))
       (number_toString (commonUserId example_manager))"
    by (simp_all add: thread_mention_fields example_collaborators number_toString_99)
  have question: "''should respond?'' = composeContext example_core ()
             (pick_template (templates (runtime example_manager))
                character_commonShouldRespondTemplate
                character_shouldRespondTemplate (commonShouldRespondTemplate example_core))"
    "generateShouldRespond example_core ''should respond?'' = Inr (Some RESPOND)"
    by (simp_all add: example_defs pick_template_def)
  have publish: "createComment example_manager
       (thread_id (thread_mention ''hi [@agent](/profile/id/99)'' 42))
       (response_text \<lparr> response_text = ''hello'', response_action = Undefined \<rparr>)
       (comment_id (thread_mention ''hi [@agent](/profile/id/99)'' 42))
     = Inr \<lparr> res_id = 7, res_community_id = ''c'', res_thread_id = 5, res_body = ''hello'',
             res_created_at = Some 1000, res_content_url = Undefined \<rparr>"
    by (simp add: thread_mention_fields example_generation)
  have action: "truthy_string (response_action \<lparr> response_text = ''hello'', response_action = Undefined \<rparr>)
     \<Longrightarrow> processActions (runtime example_manager) m ms () = Inr ()" for m ms
    by simp
  from reply_published_once_and_recorded
         [OF example_ids(1) refl gate example_collaborators(1-3) question
             example_generation(1) [symmetric] example_generation(3) example_collaborators(6)
             publish example_reply_ids refl example_collaborators(2) action refl, of 0]
  show ?thesis
    by (simp add: thread_mention_fields example_collaborators)
qed

section \<open>Signature validation\<close>

text \<open>
  The example headers carry the two-character prefixes \<open>t=\<close> and \<open>s=\<close> that
  \<open>substring(2)\<close> removes.
\<close>

lemma validateWebhook_checks:
  assumes "AgentMentionedSchema_safeParse (body req) = Some parsed"
    and "COMMON_WEBHOOK_SIGNING_KEYS config = Some keys"
    and "keys (community_id parsed) = Some signingKey"
    and "signingKey \<noteq> []"
    and "x_knock_signature req = Some sig"
    and "sig \<noteq> []"
  shows "validateWebhook config node now req
           = check_signature node now signingKey (body req) sig parsed"
  using assms by (simp add: validateWebhook_def get_property_def)

lemma safeParse_is_object:
  assumes "AgentMentionedSchema_safeParse b = Some parsed"
  shows "\<exists>kvs. b = JsonBody (JObj kvs)"
  using assms by (cases b rule: AgentMentionedSchema_safeParse.cases) auto

lemma signed_value_object:
  "signed_value timestamp (JsonBody (JObj kvs))
     = (if ''toString'' \<in> set (map fst kvs) then Inl TypeError
        else Inr (timestamp @ ''.[object Object]''))"
  by (simp add: signed_value_def)

lemma validateWebhook_inherited_key:
  assumes "AgentMentionedSchema_safeParse (body req) = Some parsed"
    and "COMMON_WEBHOOK_SIGNING_KEYS config = Some keys"
    and "keys (community_id parsed) = None"
    and "community_id parsed \<in> set Object_prototype_properties"
    and "x_knock_signature req = Some sig"
    and "sig \<noteq> []"
  shows "validateWebhook config node now req = Throws TypeError"
proof -
  obtain kvs where b: "body req = JsonBody (JObj kvs)"
    using safeParse_is_object [OF assms(1)] by blast
  have "check_signature_without_string_key (JsonBody (JObj kvs)) sig = Throws TypeError"
    by (auto simp: check_signature_without_string_key_def split_signature_def
          signed_value_object split: sum.splits list.splits)
  then show ?thesis
    using assms by (simp add: validateWebhook_def get_property_def b)
qed

lemma example_parse:
  "AgentMentionedSchema_safeParse (body (example_request s h)) = Some (thread_event s 42)"
  by (simp add: example_request_def example_body_def thread_event_def z_string_max_def)

lemma example_key:
  "COMMON_WEBHOOK_SIGNING_KEYS example_config = Some [''c'' \<mapsto> ''secret'']"
  "[''c'' \<mapsto> ''secret''] (community_id (thread_event s a)) = Some ''secret''"
  "''secret'' \<noteq> []"
  "x_knock_signature (example_request s h) = Some h"
  by (simp_all add: example_config_def thread_event_def example_request_def)

lemma example_split:
  "split_signature
     ''t=1970-01-01T00:00:01.000Z,s=mac:secret:1970-01-01T00:00:01.000Z.[object Object]''
   = Inr (''1970-01-01T00:00:01.000Z'', ''mac:secret:1970-01-01T00:00:01.000Z.[object Object]'')"
  "split_signature
     ''t=1970-01-01T00:05:00.000Z,s=mac:secret:1970-01-01T00:05:00.000Z.[object Object]''
   = Inr (''1970-01-01T00:05:00.000Z'', ''mac:secret:1970-01-01T00:05:00.000Z.[object Object]'')"
  "split_signature ''t=1970-01-01T00:00:01.000Z,s=AAAA''
   = Inr (''1970-01-01T00:00:01.000Z'', ''AAAA'')"
  by (simp_all add: split_signature_def)

lemma example_signed_value:
  "signed_value ts (body (example_request s h)) = Inr (ts @ ''.[object Object]'')"
  by (simp add: signed_value_def example_request_def example_body_def)

lemma example_node_simps:
  "hmac_sha256_base64 example_node k v = ''mac:'' @ k @ '':'' @ v"
  "Buffer_from_base64 example_node x = x"
  "Date_parse example_node ''1970-01-01T00:00:01.000Z'' = Some 1000"
  "Date_parse example_node ''1970-01-01T00:05:00.000Z'' = Some 300000"
  by (simp_all add: example_node_def)

text \<open>
  Claim C1. A body passes the schema only when it is a parsed JSON object, never a
  buffer of the transmitted bytes. For every such request that reaches the comparison,
  the string that is signed is the timestamp followed by \<open>.[object Object]\<close>, the
  template-literal rendering of the parsed object (or the rendering throws, for an
  object with an own \<open>toString\<close> property): the signature compared with the header is
  the HMAC of that string under the tenant's key, and the transmitted body takes no part
  in it.
\<close>

theorem signed_payload_is_object_tag:
  assumes "AgentMentionedSchema_safeParse (body req) = Some parsed"
    and "COMMON_WEBHOOK_SIGNING_KEYS config = Some keys"
    and "keys (community_id parsed) = Some signingKey"
    and "signingKey \<noteq> []"
    and "x_knock_signature req = Some sig"
    and "sig \<noteq> []"
    and "split_signature sig = Inr (timestamp, originalSignature)"
  shows "(\<forall>bytes. body req \<noteq> BufferBody bytes)
       \<and> (signed_value timestamp (body req) = Inl TypeError
            \<and> validateWebhook config node now req = Throws TypeError
          \<or> signed_value timestamp (body req) = Inr (timestamp @ ''.[object Object]'')
            \<and> validateWebhook config node now req
                = (case timingSafeEqual (Buffer_from_base64 node originalSignature)
                         (Buffer_from_base64 node
                            (hmac_sha256_base64 node signingKey
                               (timestamp @ ''.[object Object]''))) of
                     Inl e \<Rightarrow> Throws e
                   | Inr isValid \<Rightarrow>
                       if isValid \<and> isWithinFiveMinutes node now timestamp then Next parsed
                       else Send 401 (PlainText ''UNAUTHORIZED'')))"
proof -
  obtain kvs where b: "body req = JsonBody (JObj kvs)"
    using safeParse_is_object [OF assms(1)] by blast
  show ?thesis
    unfolding validateWebhook_checks [OF assms(1-6)]
    by (simp add: b check_signature_def assms(7) signed_value_object Let_def)
qed

text \<open>Two requests with different bodies are accepted under one and the same header.\<close>

theorem signed_payload_is_object_tag_witness:
  "validateWebhook example_config example_node 1000
     (example_request ''first text''
        ''t=1970-01-01T00:00:01.000Z,s=mac:secret:1970-01-01T00:00:01.000Z.[object Object]'')
   = Next (thread_event ''first text'' 42)
   \<and> validateWebhook example_config example_node 1000
     (example_request ''another text''
        ''t=1970-01-01T00:00:01.000Z,s=mac:secret:1970-01-01T00:00:01.000Z.[object Object]'')
   = Next (thread_event ''another text'' 42)"
proof -
  have nonempty:
    "''t=1970-01-01T00:00:01.000Z,s=mac:secret:1970-01-01T00:00:01.000Z.[object Object]'' \<noteq> []"
    by simp
  note T = signed_payload_is_object_tag
             [OF example_parse example_key(1,2,3,4) nonempty example_split(1),
              where node = example_node and now = 1000]
  from T [of "''first text''"] T [of "''another text''"] show ?thesis
    by (simp add: example_signed_value example_node_simps timingSafeEqual_def
          isWithinFiveMinutes_def)
qed

text \<open>
  Claim C2. For a request that reaches the comparison: a timestamp 60 seconds or more
  before the clock, or one that is no date, is never accepted; with a correct signature
  the answer is 401. With a correct signature, every timestamp less than 60 seconds old
  is accepted, and so is every timestamp after the clock, however far in the future.
\<close>

theorem stale_timestamp_rejected_future_accepted:
  assumes "AgentMentionedSchema_safeParse (body req) = Some parsed"
    and "COMMON_WEBHOOK_SIGNING_KEYS config = Some keys"
    and "keys (community_id parsed) = Some signingKey"
    and "signingKey \<noteq> []"
    and "x_knock_signature req = Some sig"
    and "sig \<noteq> []"
    and "split_signature sig = Inr (timestamp, originalSignature)"
    and "signed_value timestamp (body req) = Inr value"
  shows "(\<forall>date. Date_parse node timestamp = Some date \<and> 60000 \<le> now - date \<longrightarrow>
            (\<forall>p. validateWebhook config node now req \<noteq> Next p))
       \<and> (Date_parse node timestamp = None \<longrightarrow>
            (\<forall>p. validateWebhook config node now req \<noteq> Next p))
       \<and> (\<forall>date. Date_parse node timestamp = Some date \<and> now - date < 60000
             \<and> timingSafeEqual (Buffer_from_base64 node originalSignature)
                  (Buffer_from_base64 node (hmac_sha256_base64 node signingKey value))
                 = Inr True \<longrightarrow>
            validateWebhook config node now req = Next parsed)
       \<and> (timingSafeEqual (Buffer_from_base64 node originalSignature)
              (Buffer_from_base64 node (hmac_sha256_base64 node signingKey value)) = Inr True
            \<and> \<not> isWithinFiveMinutes node now timestamp \<longrightarrow>
            validateWebhook config node now req = Send 401 (PlainText ''UNAUTHORIZED''))"
  unfolding validateWebhook_checks [OF assms(1-6)]
  by (auto simp: check_signature_def assms(7,8) isWithinFiveMinutes_def Let_def
        split: sum.splits)

text \<open>A correctly signed request: 60 seconds old, rejected; a millisecond younger,
  accepted; five minutes in the future, accepted.\<close>

theorem stale_timestamp_rejected_future_accepted_witness:
  "validateWebhook example_config example_node 61000
     (example_request ''hi''
        ''t=1970-01-01T00:00:01.000Z,s=mac:secret:1970-01-01T00:00:01.000Z.[object Object]'')
   = Send 401 (PlainText ''UNAUTHORIZED'')
   \<and> validateWebhook example_config example_node 60999
     (example_request ''hi''
        ''t=1970-01-01T00:00:01.000Z,s=mac:secret:1970-01-01T00:00:01.000Z.[object Object]'')
   = Next (thread_event ''hi'' 42)
   \<and> validateWebhook example_config example_node 0
     (example_request ''hi''
        ''t=1970-01-01T00:05:00.000Z,s=mac:secret:1970-01-01T00:05:00.000Z.[object Object]'')
   = Next (thread_event ''hi'' 42)"
proof -
  have nonempty:
    "''t=1970-01-01T00:00:01.000Z,s=mac:secret:1970-01-01T00:00:01.000Z.[object Object]'' \<noteq> []"
    "''t=1970-01-01T00:05:00.000Z,s=mac:secret:1970-01-01T00:05:00.000Z.[object Object]'' \<noteq> []"
    by simp_all
  note T = stale_timestamp_rejected_future_accepted
             [OF example_parse [of "''hi''"] example_key(1,2,3,4) nonempty(1) example_split(1)
                 example_signed_value, where node = example_node]
  note F = stale_timestamp_rejected_future_accepted
             [OF example_parse [of "''hi''"] example_key(1,2,3,4) nonempty(2) example_split(2)
                 example_signed_value, where node = example_node and now = 0]
  have valid: "timingSafeEqual
       (Buffer_from_base64 example_node ''mac:secret:1970-01-01T00:00:01.000Z.[object Object]'')
       (Buffer_from_base64 example_node
          (hmac_sha256_base64 example_node ''secret''
             (''1970-01-01T00:00:01.000Z'' @ ''.[object Object]''))) = Inr True"
    "timingSafeEqual
       (Buffer_from_base64 example_node ''mac:secret:1970-01-01T00:05:00.000Z.[object Object]'')
       (Buffer_from_base64 example_node
          (hmac_sha256_base64 example_node ''secret''
             (''1970-01-01T00:05:00.000Z'' @ ''.[object Object]''))) = Inr True"
    by (simp_all add: example_node_simps timingSafeEqual_def)
  have date: "Date_parse example_node ''1970-01-01T00:00:01.000Z'' = Some 1000
                \<and> (60000::int) \<le> 61000 - 1000"
    "Date_parse example_node ''1970-01-01T00:00:01.000Z'' = Some 1000
                \<and> (60999::int) - 1000 < 60000"
    "Date_parse example_node ''1970-01-01T00:05:00.000Z'' = Some 300000
                \<and> (0::int) - 300000 < 60000"
    by (simp_all add: example_node_simps)
  have stale: "\<not> isWithinFiveMinutes example_node 61000 ''1970-01-01T00:00:01.000Z''"
    by (simp add: isWithinFiveMinutes_def example_node_simps)
  from T [of 61000] valid(1) stale
  have 1: "validateWebhook example_config example_node 61000
     (example_request ''hi''
        ''t=1970-01-01T00:00:01.000Z,s=mac:secret:1970-01-01T00:00:01.000Z.[object Object]'')
   = Send 401 (PlainText ''UNAUTHORIZED'')"
    by blast
  from T [of 60999] valid(1) date(2)
  have 2: "validateWebhook example_config example_node 60999
     (example_request ''hi''
        ''t=1970-01-01T00:00:01.000Z,s=mac:secret:1970-01-01T00:00:01.000Z.[object Object]'')
   = Next (thread_event ''hi'' 42)"
    by blast
  from F valid(2) date(3)
  have 3: "validateWebhook example_config example_node 0
     (example_request ''hi''
        ''t=1970-01-01T00:05:00.000Z,s=mac:secret:1970-01-01T00:05:00.000Z.[object Object]'')
   = Next (thread_event ''hi'' 42)"
    by blast
  from 1 2 3 show ?thesis by simp
qed

text \<open>
  Claim C3. A stale timestamp and a mismatched signature of the computed signature's
  length get the same answer, 401 with the text \<open>UNAUTHORIZED\<close>. A supplied signature
  whose decoded length differs from the computed one makes \<open>timingSafeEqual\<close> throw: the
  validator raises a \<open>RangeError\<close> and the request is answered by the server's error
  handler with 500.
\<close>

theorem signature_length_mismatch_raises:
  assumes "AgentMentionedSchema_safeParse (body req) = Some parsed"
    and "COMMON_WEBHOOK_SIGNING_KEYS config = Some keys"
    and "keys (community_id parsed) = Some signingKey"
    and "signingKey \<noteq> []"
    and "x_knock_signature req = Some sig"
    and "sig \<noteq> []"
    and "split_signature sig = Inr (timestamp, originalSignature)"
    and "signed_value timestamp (body req) = Inr value"
    and "supplied = Buffer_from_base64 node originalSignature"
    and "computed = Buffer_from_base64 node (hmac_sha256_base64 node signingKey value)"
  shows "(length supplied \<noteq> length computed \<longrightarrow>
            validateWebhook config node now req = Throws RangeError
            \<and> post_webhook config node fetch mm core now req = ([], (500, DefaultErrorPage)))
       \<and> (length supplied = length computed
            \<and> (supplied \<noteq> computed \<or> \<not> isWithinFiveMinutes node now timestamp) \<longrightarrow>
            validateWebhook config node now req = Send 401 (PlainText ''UNAUTHORIZED'')
            \<and> post_webhook config node fetch mm core now req
                = ([], (401, PlainText ''UNAUTHORIZED'')))"
  unfolding post_webhook_def validateWebhook_checks [OF assms(1-6)] assms(9,10)
  by (auto simp: check_signature_def assms(7,8) timingSafeEqual_def Let_def)

text \<open>A header whose signature \<open>AAAA\<close> is shorter than the computed one.\<close>

theorem signature_length_mismatch_raises_witness:
  "validateWebhook example_config example_node 1000
     (example_request ''hi'' ''t=1970-01-01T00:00:01.000Z,s=AAAA'') = Throws RangeError
   \<and> post_webhook example_config example_node (\<lambda>url. Inl (Rejected ''unused''))
        example_manager example_core 1000
        (example_request ''hi'' ''t=1970-01-01T00:00:01.000Z,s=AAAA'')
      = ([], (500, DefaultErrorPage))"
proof -
  have nonempty: "''t=1970-01-01T00:00:01.000Z,s=AAAA'' \<noteq> []"
    by simp
  note T = signature_length_mismatch_raises
             [OF example_parse [of "''hi''"] example_key(1,2,3,4) nonempty example_split(3)
                 example_signed_value refl refl,
              where node = example_node and now = 1000
                and fetch = "\<lambda>url. Inl (Rejected ''unused'')"
                and mm = example_manager and core = example_core]
  from T show ?thesis
    by (simp add: example_node_simps)
qed

section \<open>Identity derivation\<close>

lemma message_key_distinct:
  "a \<noteq> b \<Longrightarrow> content_type_string a @ x \<noteq> content_type_string b @ y"
  by (cases a; cases b) simp_all

text \<open>
  What the derivation gives every event: one \<open>roomId\<close> per community and thread, the
  same \<open>messageId\<close> whenever content type, \<open>comment_id\<close> and \<open>thread_id\<close> agree, and
  different strings handed to \<open>stringToUuid\<close> for a thread event and a comment event.
\<close>

lemma memory_ids_guarantees:
  assumes "generateMemoryIds mm core (Some m1) None = Some i1"
    and "generateMemoryIds mm core (Some m2) None = Some i2"
  shows "(community_id m1 = community_id m2 \<and> thread_id m1 = thread_id m2 \<longrightarrow>
            roomId i1 = roomId i2)
       \<and> (content_type m1 \<noteq> content_type m2 \<longrightarrow>
            (\<exists>k1 k2. messageId i1 = stringToUuid core k1 \<and> messageId i2 = stringToUuid core k2
                \<and> k1 \<noteq> k2))
       \<and> (content_type m1 = content_type m2 \<and> comment_id m1 = comment_id m2
            \<and> thread_id m1 = thread_id m2 \<longrightarrow> messageId i1 = messageId i2)"
proof -
  let ?k = "\<lambda>m. content_type_string (content_type m) @ ''-'' @
                number_toString (js_or_number (comment_id m) (thread_id m)) @ ''-'' @
                agentId (runtime mm)"
  have m: "messageId i1 = stringToUuid core (?k m1)" "messageId i2 = stringToUuid core (?k m2)"
    and r: "roomId i1 = stringToUuid core
              (community_id m1 @ ''-'' @ number_toString (thread_id m1) @ ''-'' @ agentId (runtime mm))"
       "roomId i2 = stringToUuid core
              (community_id m2 @ ''-'' @ number_toString (thread_id m2) @ ''-'' @ agentId (runtime mm))"
    using assms by (auto simp: generateMemoryIds_def)
  have d: "content_type m1 \<noteq> content_type m2 \<Longrightarrow> ?k m1 \<noteq> ?k m2"
    by (rule message_key_distinct)
  have C: "content_type m1 \<noteq> content_type m2 \<longrightarrow>
            (\<exists>k1 k2. messageId i1 = stringToUuid core k1 \<and> messageId i2 = stringToUuid core k2
                \<and> k1 \<noteq> k2)"
    using m d by blast
  have A: "community_id m1 = community_id m2 \<and> thread_id m1 = thread_id m2 \<longrightarrow>
            roomId i1 = roomId i2"
    unfolding r by simp
  have D: "content_type m1 = content_type m2 \<and> comment_id m1 = comment_id m2
            \<and> thread_id m1 = thread_id m2 \<longrightarrow> messageId i1 = messageId i2"
    unfolding m by simp
  show ?thesis
    by (rule conjI [OF A conjI [OF C D]])
qed

text \<open>
  Claim C4. The \<open>messageId\<close> of an event is meant to come from its \<open>comment_id\<close> when it
  has one. For an event whose \<open>comment_id\<close> is 0 the code takes the \<open>thread_id\<close>
  instead, since \<open>0 || thread_id\<close> is \<open>thread_id\<close>: comment 0 of thread \<open>n\<close> gets the
  message id of every comment event with \<open>comment_id = n\<close>, a different message, while
  the reply path of the same function keys a published comment with id 0 by that 0.
\<close>

theorem comment_id_zero_takes_thread_id:
  assumes "comment_id m = Some 0"
    and "generateMemoryIds mm core (Some m) None = Some ids"
  shows "messageId ids
           = stringToUuid core
               (content_type_string (content_type m) @ ''-'' @ number_toString (thread_id m) @
                ''-'' @ agentId (runtime mm))
       \<and> (\<forall>m' ids'.
            content_type m' = content_type m \<and> comment_id m' = Some (thread_id m)
            \<and> thread_id m \<noteq> 0
            \<and> generateMemoryIds mm core (Some m') None = Some ids' \<longrightarrow>
            messageId ids' = messageId ids)
       \<and> (\<forall>res resIds.
            res_id res = 0 \<and> generateMemoryIds mm core None (Some res) = Some resIds \<longrightarrow>
            messageId resIds
              = stringToUuid core
                  (''comment-'' @ number_toString 0 @ ''-'' @ agentId (runtime mm)))"
proof (intro conjI allI impI)
  show own: "messageId ids
           = stringToUuid core
               (content_type_string (content_type m) @ ''-'' @ number_toString (thread_id m) @
                ''-'' @ agentId (runtime mm))"
    using assms by (auto simp: generateMemoryIds_def)
  {
    fix m' ids'
    assume h: "content_type m' = content_type m \<and> comment_id m' = Some (thread_id m)
            \<and> thread_id m \<noteq> 0
            \<and> generateMemoryIds mm core (Some m') None = Some ids'"
    then have "messageId ids'
           = stringToUuid core
               (content_type_string (content_type m) @ ''-'' @ number_toString (thread_id m) @
                ''-'' @ agentId (runtime mm))"
      by (auto simp: generateMemoryIds_def)
    then show "messageId ids' = messageId ids"
      unfolding own .
  }
  {
    fix res resIds
    assume "res_id res = 0 \<and> generateMemoryIds mm core None (Some res) = Some resIds"
    then show "messageId resIds
              = stringToUuid core
                  (''comment-'' @ number_toString 0 @ ''-'' @ agentId (runtime mm))"
      by (auto simp: generateMemoryIds_def)
  }
qed

text \<open>
  Comment 0 of thread 5 and comment 5 of thread 9 get one and the same message id; a
  published comment with id 0 gets another.
\<close>

theorem comment_id_zero_takes_thread_id_witness:
  "generateMemoryIds example_manager example_core (Some comment_zero) None
     = Some \<lparr> roomId = ''c-5-agent'', userId = ''42-agent'', messageId = ''comment-5-agent'' \<rparr>
   \<and> generateMemoryIds example_manager example_core (Some comment_five) None
     = Some \<lparr> roomId = ''c-9-agent'', userId = ''42-agent'', messageId = ''comment-5-agent'' \<rparr>
   \<and> generateMemoryIds example_manager example_core None (Some reply_zero)
     = Some \<lparr> roomId = ''c-5-agent'', userId = ''agent'', messageId = ''comment-0-agent'' \<rparr>
   \<and> messageId \<lparr> roomId = ''c-9-agent'', userId = ''42-agent'', messageId = ''comment-5-agent'' \<rparr>
     = messageId \<lparr> roomId = ''c-5-agent'', userId = ''42-agent'', messageId = ''comment-5-agent'' \<rparr>
   \<and> messageId \<lparr> roomId = ''c-5-agent'', userId = ''agent'', messageId = ''comment-0-agent'' \<rparr>
     = stringToUuid example_core
         (''comment-'' @ number_toString 0 @ ''-'' @ agentId (runtime example_manager))"
proof -
  have zero: "comment_id comment_zero = Some 0"
    by (simp add: comment_zero_def)
  have a: "generateMemoryIds example_manager example_core (Some comment_zero) None
     = Some \<lparr> roomId = ''c-5-agent'', userId = ''42-agent'', messageId = ''comment-5-agent'' \<rparr>"
    by (simp add: generateMemoryIds_def comment_zero_def example_defs number_toString_examples)
  have b: "generateMemoryIds example_manager example_core (Some comment_five) None
     = Some \<lparr> roomId = ''c-9-agent'', userId = ''42-agent'', messageId = ''comment-5-agent'' \<rparr>"
    by (simp add: generateMemoryIds_def comment_five_def example_defs number_toString_examples)
  have c: "generateMemoryIds example_manager example_core None (Some reply_zero)
     = Some \<lparr> roomId = ''c-5-agent'', userId = ''agent'', messageId = ''comment-0-agent'' \<rparr>"
    by (simp add: generateMemoryIds_def reply_zero_def example_defs number_toString_examples)
  have five: "content_type comment_five = content_type comment_zero
            \<and> comment_id comment_five = Some (thread_id comment_zero)
            \<and> thread_id comment_zero \<noteq> 0
            \<and> generateMemoryIds example_manager example_core (Some comment_five) None
                = Some \<lparr> roomId = ''c-9-agent'', userId = ''42-agent'',
                         messageId = ''comment-5-agent'' \<rparr>"
    using b by (simp add: comment_five_def comment_zero_def example_defs)
  have reply: "res_id reply_zero = 0
            \<and> generateMemoryIds example_manager example_core None (Some reply_zero)
                = Some \<lparr> roomId = ''c-5-agent'', userId = ''agent'',
                         messageId = ''comment-0-agent'' \<rparr>"
    using c by (simp add: reply_zero_def)
  note T = comment_id_zero_takes_thread_id [OF zero a]
  from T [THEN conjunct2, THEN conjunct1, rule_format, OF five]
       T [THEN conjunct2, THEN conjunct2, rule_format, OF reply] a b c
  show ?thesis
    by blast
qed

section \<open>Normalisation\<close>







end
